theory Spec2Isabelle
  imports Complex_Main "HOL-Library.AList"
begin

section \<open>Values of the host language\<close>

text \<open>
  The module under study is \<^verbatim>\<open>js/modules/draggable-points.src.js\<close>.  JavaScript numbers
  are modelled as real numbers (exact arithmetic, no NaN and no infinities); \<^verbatim>\<open>undefined\<close>
  and \<^verbatim>\<open>null\<close> are \<open>None\<close>.  Where the script would throw a \<^verbatim>\<open>TypeError\<close> (a property
  read on \<^verbatim>\<open>undefined\<close>) the model returns \<open>Inl TypeError\<close>; where the script would
  carry on with \<^verbatim>\<open>NaN\<close> or an infinity, which the reals cannot express, the model returns
  \<open>Inl NonNumeric\<close>.
\<close>

datatype error = TypeError | NonNumeric

datatype jsval = JBool bool | JNum real | JStr string

text \<open>Truthiness of a property read: \<^verbatim>\<open>undefined\<close>, \<^verbatim>\<open>false\<close>, \<^verbatim>\<open>0\<close> and \<^verbatim>\<open>''\<close> are falsy.\<close>

fun truthy :: "jsval option \<Rightarrow> bool" where
  "truthy None = False"
| "truthy (Some (JBool b)) = b"
| "truthy (Some (JNum n)) = (n \<noteq> 0)"
| "truthy (Some (JStr s)) = (s \<noteq> [])"

text \<open>\<^verbatim>\<open>H.pick(v, d)\<close>: the first argument that is neither \<^verbatim>\<open>undefined\<close> nor \<^verbatim>\<open>null\<close>.\<close>

definition pick :: "'a option \<Rightarrow> 'a \<Rightarrow> 'a" where
  "pick v d = (case v of Some a \<Rightarrow> a | None \<Rightarrow> d)"

text \<open>\<^verbatim>\<open>Math.round\<close>: the nearest integer, a tie going up.\<close>

definition Math_round :: "real \<Rightarrow> real" where
  "Math_round v = of_int \<lfloor>v + 1 / 2\<rfloor>"

text \<open>
  \<^verbatim>\<open>Math.min(max, res)\<close> and \<^verbatim>\<open>Math.max(min, res)\<close> with a bound that defaults to
  \<^verbatim>\<open>Infinity\<close> / \<^verbatim>\<open>-Infinity\<close>: the absent bound is \<open>None\<close>.
\<close>

definition Math_min :: "real option \<Rightarrow> real \<Rightarrow> real" where
  "Math_min bound v = (case bound of None \<Rightarrow> v | Some m \<Rightarrow> min m v)"

definition Math_max :: "real option \<Rightarrow> real \<Rightarrow> real" where
  "Math_max bound v = (case bound of None \<Rightarrow> v | Some m \<Rightarrow> max m v)"

text \<open>\<^verbatim>\<open>String.prototype.toUpperCase\<close> on ASCII letters.\<close>

definition toUpperCase :: "string \<Rightarrow> string" where
  "toUpperCase s =
     map (\<lambda>c. case map_of (zip ''abcdefghijklmnopqrstuvwxyz'' ''ABCDEFGHIJKLMNOPQRSTUVWXYZ'') c of
                 Some u \<Rightarrow> u | None \<Rightarrow> c) s"

section \<open>Data model\<close>

text \<open>
  The \<^verbatim>\<open>dragDrop\<close> option object of a series or of a point.  Its entries are typed as the
  API documentation of the module types them: boolean switches (\<^verbatim>\<open>draggableX\<close>,
  \<^verbatim>\<open>draggableY\<close>, \<^verbatim>\<open>liveRedraw\<close> and the per-prop \<^verbatim>\<open>optionName\<close> switches), numbers
  (\<^verbatim>\<open>dragMinX\<close>, \<^verbatim>\<open>dragMaxX\<close>, \<^verbatim>\<open>dragPrecisionX\<close>, \<dots>, read by their property name) and the
  \<^verbatim>\<open>groupBy\<close> string.  Guide box and handle styling is presentation only and left out.
\<close>

record dragDropOptions =
  flags :: "string \<rightharpoonup> bool"
  nums :: "string \<rightharpoonup> real"
  groupBy :: "string option"

text \<open>\<^verbatim>\<open>H.merge(a, b)\<close> on two option objects: the entries of \<open>b\<close> override those of \<open>a\<close>.\<close>

definition merge :: "dragDropOptions \<Rightarrow> dragDropOptions option \<Rightarrow> dragDropOptions" where
  "merge a b =
     (case b of
        None \<Rightarrow> a
      | Some b' \<Rightarrow>
          \<lparr>flags = flags a ++ flags b',
           nums = nums a ++ nums b',
           groupBy = (case groupBy b' of None \<Rightarrow> groupBy a | Some g \<Rightarrow> Some g)\<rparr>)"

text \<open>
  The axis service: \<^verbatim>\<open>toPixels(v, true)\<close>, \<^verbatim>\<open>toValue(p, true)\<close> and the two flags the
  module reads.
\<close>

record Axis =
  toPixels :: "real \<Rightarrow> real"
  toValue :: "real \<Rightarrow> real"
  horiz :: bool
  reversed :: bool

text \<open>An SVG rectangle, with the attributes the module reads and writes.\<close>

record rect =
  rect_x :: real
  rect_y :: real
  rect_width :: real
  rect_height :: real
  translateX :: real
  translateY :: real

text \<open>
  A point object: its \<^verbatim>\<open>id\<close>, its data props (\<^verbatim>\<open>point[key]\<close>), \<^verbatim>\<open>point.options.dragDrop\<close>,
  the other entries of \<^verbatim>\<open>point.options\<close> (read through the grouping key) and the bounding
  box \<^verbatim>\<open>point.graphic.getBBox()\<close> that the renderer reports.
\<close>

record Point =
  point_id :: string
  props :: "string \<rightharpoonup> real"
  point_dragDrop :: "dragDropOptions option"
  point_options :: "string \<rightharpoonup> jsval"
  bBox :: rect

text \<open>
  One entry of a series' \<^verbatim>\<open>dragDropProps\<close>.  The handle positioner and formatter draw the
  handle and are left out.
\<close>

datatype resizeSide_t =
  Static string
| Computed "(string \<times> real) list \<Rightarrow> Point \<Rightarrow> string"

record dragDropProp =
  optionName :: "string option"
  axis :: string
  move :: bool
  resize :: bool
  resizeSide :: "resizeSide_t option"
  propValidate :: "(real \<Rightarrow> Point \<Rightarrow> bool) option"
  beforeResize :: "(rect \<Rightarrow> (string \<times> real) list \<Rightarrow> Point \<Rightarrow> rect) option"

text \<open>
  Points are mutable objects that the chart, the series and the drag data all refer to, so
  they live in a store and are named by references.
\<close>

type_synonym ref = nat

text \<open>
  A series: \<^verbatim>\<open>series.options.dragDrop\<close> (present on every series the module acts on),
  the prototype's \<^verbatim>\<open>dragDropProps\<close> in key order, the two axes and \<^verbatim>\<open>series.points\<close>.
\<close>

record Series =
  series_dragDrop :: dragDropOptions
  dragDropProps :: "(string \<times> dragDropProp) list"
  xAxis :: "Axis option"
  yAxis :: "Axis option"
  series_points :: "ref list"

text \<open>A pointer position, as carried by a mouse event and by the snapshot.\<close>

record pos =
  pageX :: real
  pageY :: real

text \<open>
  A mouse event: the position, the modifier keys (\<^verbatim>\<open>e['altKey']\<close>, \<dots>) and whether a user
  handler of the point event fired for it suppresses the default handler.
\<close>

record event = pos +
  keys :: "string \<Rightarrow> bool"
  defaultPrevented :: bool

text \<open>
  The position snapshot \<^verbatim>\<open>origin\<close>.  \<open>origin_x\<close> and \<open>origin_y\<close> are the properties
  \<^verbatim>\<open>origin.x\<close> and \<^verbatim>\<open>origin.y\<close> that \<^verbatim>\<open>getDropValues\<close> reads; \<open>points\<close> maps a point id to
  the props recorded for that point.  (The back reference \<^verbatim>\<open>pointProps.point\<close> is never
  read by the module and is left out.)
\<close>

record origin = pos +
  origin_x :: "real option"
  origin_y :: "real option"
  guideBox :: "rect option"
  points :: "string \<rightharpoonup> (string \<rightharpoonup> real)"
  prevdX :: "real option"
  prevdY :: "real option"

section \<open>The value translator\<close>

text \<open>The local function \<^verbatim>\<open>limitToRange(val, direction)\<close> of \<^verbatim>\<open>getDropValues\<close>.\<close>

definition limitToRange :: "dragDropOptions \<Rightarrow> real \<Rightarrow> string \<Rightarrow> real" where
  "limitToRange options val direction =
     (let precision = pick (nums options (''dragPrecision'' @ direction)) 1;
          mn = nums options (''dragMin'' @ direction);
          mx = nums options (''dragMax'' @ direction);
          res = (if precision \<noteq> 0 then Math_round (val / precision) * precision else val)
      in Math_max mn (Math_min mx res))"

text \<open>
  The loop that finds out whether there is only one prop to update: \<^verbatim>\<open>true\<close> after the
  first key, \<^verbatim>\<open>false\<close> at the second (\<^verbatim>\<open>undefined\<close>, which is falsy, without any key).
\<close>

fun updateSingleProp :: "(string \<times> dragDropProp) list \<Rightarrow> bool" where
  "updateSingleProp [_] = True"
| "updateSingleProp _ = False"

text \<open>
  The local variables \<^verbatim>\<open>dXValue\<close> and \<^verbatim>\<open>dYValue\<close> of \<^verbatim>\<open>getDropValues\<close>: the value-space
  delta on each axis, taken at \<^verbatim>\<open>pick(origin.x, point.x)\<close> and \<^verbatim>\<open>pick(origin.y, point.y)\<close>.
  A missing axis is a \<^verbatim>\<open>TypeError\<close>; a point without the coordinate gives \<^verbatim>\<open>NaN\<close>, which
  is \<open>None\<close> here and becomes \<open>NonNumeric\<close> once a prop uses it.
\<close>

definition dXValue :: "Series \<Rightarrow> Point \<Rightarrow> origin \<Rightarrow> 'a pos_scheme \<Rightarrow> error + real option" where
  "dXValue series point origin newPos =
     (let dX = pageX newPos - pageX origin;
          dY = pageY newPos - pageY origin;
          oldX = (case origin_x origin of Some v \<Rightarrow> Some v | None \<Rightarrow> props point ''x'')
      in case xAxis series of
           None \<Rightarrow> Inl TypeError
         | Some xa \<Rightarrow>
             Inr (case oldX of
                    None \<Rightarrow> None
                  | Some v \<Rightarrow> Some (toValue xa (toPixels xa v + (if horiz xa then dX else dY)) - v)))"

definition dYValue :: "Series \<Rightarrow> Point \<Rightarrow> origin \<Rightarrow> 'a pos_scheme \<Rightarrow> error + real option" where
  "dYValue series point origin newPos =
     (let dX = pageX newPos - pageX origin;
          dY = pageY newPos - pageY origin;
          oldY = (case origin_y origin of Some v \<Rightarrow> Some v | None \<Rightarrow> props point ''y'')
      in case yAxis series of
           None \<Rightarrow> Inl TypeError
         | Some ya \<Rightarrow>
             Inr (case oldY of
                    None \<Rightarrow> None
                  | Some v \<Rightarrow> Some (toValue ya (toPixels ya v + (if horiz ya then dX else dY)) - v)))"

text \<open>
  The callback of \<^verbatim>\<open>objectEach(updateProps, \<dots>)\<close>: the new value of one prop, or nothing
  when the single prop under update fails its validation.
\<close>

definition assignProp ::
  "dragDropOptions \<Rightarrow> Point \<Rightarrow> bool \<Rightarrow> real option \<Rightarrow> real option \<Rightarrow>
   (string \<rightharpoonup> real) option \<Rightarrow> string \<times> dragDropProp \<Rightarrow> error + (string \<times> real) option" where
  "assignProp options point single dXv dYv pointOrigin kv =
     (case pointOrigin of
        None \<Rightarrow> Inl TypeError
      | Some po \<Rightarrow>
          (case (po (fst kv), if axis (snd kv) = ''x'' then dXv else dYv) of
             (Some oldVal, Some d) \<Rightarrow>
               (let newVal = limitToRange options (oldVal + d) (toUpperCase (axis (snd kv)))
                in if single \<and>
                      (case propValidate (snd kv) of
                         Some validate \<Rightarrow> \<not> validate newVal point
                       | None \<Rightarrow> False)
                   then Inr None
                   else Inr (Some (fst kv, newVal)))
           | _ \<Rightarrow> Inl NonNumeric))"

fun assignProps ::
  "((string \<times> dragDropProp) \<Rightarrow> error + (string \<times> real) option) \<Rightarrow> (string \<times> dragDropProp) list \<Rightarrow>
   error + (string \<times> real) list" where
  "assignProps f [] = Inr []"
| "assignProps f (kv # rest) =
     (case f kv of
        Inl e \<Rightarrow> Inl e
      | Inr r \<Rightarrow>
          (case assignProps f rest of
             Inl e \<Rightarrow> Inl e
           | Inr result \<Rightarrow> Inr (case r of None \<Rightarrow> result | Some entry \<Rightarrow> entry # result)))"

text \<open>
  \<^verbatim>\<open>H.Point.prototype.getDropValues(origin, newPos, updateProps)\<close>, with the series of the
  point as a parameter.
\<close>

definition getDropValues ::
  "Series \<Rightarrow> Point \<Rightarrow> origin \<Rightarrow> 'a pos_scheme \<Rightarrow> (string \<times> dragDropProp) list \<Rightarrow>
   error + (string \<times> real) list" where
  "getDropValues series point origin newPos updateProps =
     (let options = merge (series_dragDrop series) (point_dragDrop point)
      in case dXValue series point origin newPos of
           Inl err \<Rightarrow> Inl err
         | Inr dXv \<Rightarrow>
             (case dYValue series point origin newPos of
                Inl err \<Rightarrow> Inl err
              | Inr dYv \<Rightarrow>
                  assignProps
                    (assignProp options point (updateSingleProp updateProps) dXv dYv
                       (points origin (point_id point)))
                    updateProps))"

section \<open>Predicates and geometry helpers\<close>

text \<open>
  \<^verbatim>\<open>isPointMovable(point)\<close>.  An option is truthy when it is \<^verbatim>\<open>true\<close>; the point-level
  switch is compared with \<^verbatim>\<open>=== false\<close>.
\<close>

definition isPointMovable :: "Series \<Rightarrow> Point \<Rightarrow> bool" where
  "isPointMovable series point =
     (let seriesDragDropOptions = series_dragDrop series;
          hasMovableX = list_ex (\<lambda>kv. axis (snd kv) = ''x'' \<and> move (snd kv)) (dragDropProps series);
          hasMovableY = list_ex (\<lambda>kv. axis (snd kv) = ''y'' \<and> move (snd kv)) (dragDropProps series)
      in (flags seriesDragDropOptions ''draggableX'' = Some True \<and> hasMovableX \<or>
          flags seriesDragDropOptions ''draggableY'' = Some True \<and> hasMovableY) \<and>
         (case point_dragDrop point of
            None \<Rightarrow> True
          | Some pointDragDropOptions \<Rightarrow>
              \<not> (flags pointDragDropOptions ''draggableX'' = Some False \<and>
                 flags pointDragDropOptions ''draggableY'' = Some False)) \<and>
         yAxis series \<noteq> None \<and> xAxis series \<noteq> None)"

text \<open>
  The threshold that \<^verbatim>\<open>mouseMove\<close> passes to \<^verbatim>\<open>hasDraggedPastSensitivity\<close>:
  \<^verbatim>\<open>pick(point.options.dragDrop && point.options.dragDrop.dragSensitiviy,
  seriesDragDropOpts && seriesDragDropOpts.dragSensitiviy, defaultDragSensitivity)\<close>.
  The property name is spelled as the source spells it.
\<close>

definition defaultDragSensitivity :: real where
  "defaultDragSensitivity = 2"

definition sensitivity :: "Series \<Rightarrow> Point \<Rightarrow> real" where
  "sensitivity series point =
     pick (case point_dragDrop point of
             None \<Rightarrow> None
           | Some pointDragDropOptions \<Rightarrow> nums pointDragDropOptions ''dragSensitiviy'')
       (pick (nums (series_dragDrop series) ''dragSensitiviy'') defaultDragSensitivity)"

text \<open>\<^verbatim>\<open>resizeRect(rect, updateSide, update)\<close>; an unknown side leaves the rectangle as it is.\<close>

definition resizeRect :: "rect \<Rightarrow> string option \<Rightarrow> real \<Rightarrow> real \<Rightarrow> rect" where
  "resizeRect r updateSide update_x update_y =
     (if updateSide = Some ''left'' then
        r\<lparr>rect_x := rect_x r + update_x, rect_width := max 1 (rect_width r - update_x)\<rparr>
      else if updateSide = Some ''right'' then
        r\<lparr>rect_width := max 1 (rect_width r + update_x)\<rparr>
      else if updateSide = Some ''top'' then
        r\<lparr>rect_y := rect_y r + update_y, rect_height := max 1 (rect_height r - update_y)\<rparr>
      else if updateSide = Some ''bottom'' then
        r\<lparr>rect_height := max 1 (rect_height r + update_y)\<rparr>
      else r)"

text \<open>\<^verbatim>\<open>flipResizeSide(side)\<close>: a table lookup, \<^verbatim>\<open>undefined\<close> for any other side.\<close>

definition flipResizeSide :: "string option \<Rightarrow> string option" where
  "flipResizeSide side =
     (case side of
        None \<Rightarrow> None
      | Some s \<Rightarrow>
          map_of [(''left'', ''right''), (''right'', ''left''),
                  (''top'', ''bottom''), (''bottom'', ''top'')] s)"

section \<open>The drag session\<close>

text \<open>An entry of the \<^verbatim>\<open>newPoints\<close> hashmap: \<^verbatim>\<open>{point: p, newValues: \<dots>}\<close>.\<close>

record newPoint =
  newPoint_point :: ref
  newValues :: "(string \<times> real) list"

text \<open>
  \<^verbatim>\<open>chart.dragDropData\<close>.  \<open>newPoints\<close> is \<open>None\<close> until the first \<^verbatim>\<open>dragMove\<close> has
  computed it.
\<close>

record DragDropData =
  origin :: origin
  point :: ref
  groupedPoints :: "ref list"
  isDragging :: bool
  updateProp :: "string option"
  draggedPastSensitivity :: bool
  newPoints :: "(string \<times> newPoint) list option"

text \<open>
  The chart, with the series the gesture is on, the store of point objects and the fields
  the module keeps on the chart.  \<open>dragHandles\<close> says whether the group of resize handles
  exists.
\<close>

record Chart =
  series :: Series
  store :: "ref \<Rightarrow> Point"
  hoverPoint :: "ref option"
  inverted :: bool
  panKey :: "string option"
  zoomKey :: "string option"
  dragDropData :: "DragDropData option"
  dragGuideBox :: "rect option"
  dragHandles :: bool
  isDragDropAnimating :: bool
  chart_isDragging :: bool

text \<open>
  \<^verbatim>\<open>Chart.prototype.zoomOrPanKeyPressed(e)\<close>: \<^verbatim>\<open>key && key + 'Key'\<close> names the event
  property that is read.
\<close>

definition keyProperty :: "string option \<Rightarrow> string" where
  "keyProperty k = (case k of None \<Rightarrow> ''undefined'' | Some s \<Rightarrow> if s = [] then [] else s @ ''Key'')"

definition zoomOrPanKeyPressed :: "Chart \<Rightarrow> event \<Rightarrow> bool" where
  "zoomOrPanKeyPressed chart e =
     (keys e (keyProperty (zoomKey chart)) \<or> keys e (keyProperty (panKey chart)))"

text \<open>\<^verbatim>\<open>hasDraggedPastSensitivity(e, chart, sensitivity)\<close>.\<close>

definition hasDraggedPastSensitivity :: "event \<Rightarrow> Chart \<Rightarrow> real \<Rightarrow> error + bool" where
  "hasDraggedPastSensitivity e chart threshold =
     (case dragDropData chart of
        None \<Rightarrow> Inl TypeError
      | Some d \<Rightarrow>
          (let orig = origin d;
               oldX = pageX orig; oldY = pageY orig;
               newX = pageX e; newY = pageY e;
               distance = sqrt ((newX - oldX) * (newX - oldX) + (newY - oldY) * (newY - oldY))
           in Inr (distance > threshold)))"

text \<open>
  \<^verbatim>\<open>getPositionSnapshot(e, points, guideBox)\<close>: the pointer position, the guide box and,
  per point id, the point's current value of every key of the series' \<^verbatim>\<open>dragDropProps\<close>.
  \<^verbatim>\<open>origin.x\<close> and \<^verbatim>\<open>origin.y\<close> are not written.
\<close>

definition getPositionSnapshot ::
  "(ref \<Rightarrow> Point) \<Rightarrow> Series \<Rightarrow> event \<Rightarrow> ref list \<Rightarrow> rect option \<Rightarrow> origin" where
  "getPositionSnapshot st ser e pts gb =
     \<lparr>pageX = pageX e, pageY = pageY e,
      origin_x = None, origin_y = None,
      guideBox = gb,
      points = fold (\<lambda>r res. res(point_id (st r) \<mapsto> props (st r) |` set (map fst (dragDropProps ser))))
                 pts Map.empty,
      prevdX = None, prevdY = None\<rparr>"

text \<open>
  \<^verbatim>\<open>getGroupedPoints(point)\<close>.  With no \<^verbatim>\<open>groupBy\<close> option the key is \<^verbatim>\<open>undefined\<close> and
  the property read is that of the name \<^verbatim>\<open>"undefined"\<close>.
\<close>

definition getGroupedPoints :: "(ref \<Rightarrow> Point) \<Rightarrow> Series \<Rightarrow> ref \<Rightarrow> ref list" where
  "getGroupedPoints st ser r =
     (let groupKey = (case groupBy (series_dragDrop ser) of None \<Rightarrow> ''undefined'' | Some k \<Rightarrow> k)
      in if truthy (point_options (st r) groupKey)
         then filter (\<lambda>comparePoint. point_options (st comparePoint) groupKey =
                                      point_options (st r) groupKey)
                (series_points ser)
         else [r])"

text \<open>
  \<^verbatim>\<open>Series.prototype.getGuideBox(points)\<close>: the bounding box of the points' boxes.  The
  running minima and maxima start at \<^verbatim>\<open>Infinity\<close> and \<^verbatim>\<open>-Infinity\<close> (\<open>None\<close>); with no
  point at all they stay there.
\<close>

definition getGuideBox :: "(ref \<Rightarrow> Point) \<Rightarrow> ref list \<Rightarrow> error + rect" where
  "getGuideBox st pts =
     (case fold (\<lambda>r (minX, maxX, minY, maxY).
                   (let b = bBox (st r)
                    in (Some (Math_min minX (rect_x b)),
                        Some (Math_max maxX (rect_x b + rect_width b)),
                        Some (Math_min minY (rect_y b)),
                        Some (Math_max maxY (rect_y b + rect_height b)))))
             pts (None, None, None, None) of
        (Some minX, Some maxX, Some minY, Some maxY) \<Rightarrow>
          Inr \<lparr>rect_x = minX, rect_y = minY, rect_width = maxX - minX, rect_height = maxY - minY,
               translateX = 0, translateY = 0\<rparr>
      | _ \<Rightarrow> Inl NonNumeric)"

text \<open>
  \<^verbatim>\<open>initDragDrop(e, point)\<close>.  The guide box is made when the series' \<^verbatim>\<open>liveRedraw\<close> is
  off; \<^verbatim>\<open>setGuideBoxState\<close> only styles it.
\<close>

definition initDragDrop :: "event \<Rightarrow> ref \<Rightarrow> Chart \<Rightarrow> error + Chart" where
  "initDragDrop e r chart =
     (let grouped = getGroupedPoints (store chart) (series chart) r;
          start = (\<lambda>gb c.
            c\<lparr>dragDropData := Some
                 \<lparr>origin = getPositionSnapshot (store chart) (series chart) e grouped gb,
                  point = r, groupedPoints = grouped, isDragging = False, updateProp = None,
                  draggedPastSensitivity = False, newPoints = None\<rparr>,
              chart_isDragging := True\<rparr>)
      in if \<not> pick (flags (series_dragDrop (series chart)) ''liveRedraw'') True
         then (case getGuideBox (store chart) grouped of
                 Inl err \<Rightarrow> Inl err
               | Inr gb \<Rightarrow> Inr (start (Some gb) (chart\<lparr>dragGuideBox := Some gb\<rparr>)))
         else Inr (start None chart))"

text \<open>A property name used as a condition (\<^verbatim>\<open>resizeProp ? \<dots>\<close>): set and not empty.\<close>

definition nameSet :: "string option \<Rightarrow> bool" where
  "nameSet k = (case k of None \<Rightarrow> False | Some s \<Rightarrow> s \<noteq> [])"

text \<open>
  The first loop of \<^verbatim>\<open>getNewPoints\<close>: whether a prop is to be updated.
  \<open>enabled\<close> is \<^verbatim>\<open>pick(val.optionName && options[val.optionName], val.axis === 'x' ?
  options.draggableX : options.draggableY)\<close>.
\<close>

definition enabled :: "dragDropOptions \<Rightarrow> dragDropProp \<Rightarrow> bool" where
  "enabled opts val =
     (let axisSwitch = (if axis val = ''x'' then flags opts ''draggableX'' else flags opts ''draggableY'')
      in case optionName val of
           None \<Rightarrow> pick axisSwitch False
         | Some n \<Rightarrow> if n = [] then False else pick (flags opts n) (pick axisSwitch False))"

definition toUpdate :: "dragDropOptions \<Rightarrow> string option \<Rightarrow> string \<times> dragDropProp \<Rightarrow> bool" where
  "toUpdate opts resizeProp kv =
     (if nameSet resizeProp \<and> resizeProp \<noteq> Some (fst kv) then False
      else enabled opts (snd kv) \<and> (if nameSet resizeProp then resize (snd kv) else move (snd kv)))"

text \<open>The second loop of \<^verbatim>\<open>getNewPoints\<close>: \<^verbatim>\<open>hashmap[p.id] = {point: p, newValues: \<dots>}\<close>.\<close>

fun eachNewPoint ::
  "(ref \<Rightarrow> Point) \<Rightarrow> (Point \<Rightarrow> error + (string \<times> real) list) \<Rightarrow> ref list \<Rightarrow>
   (string \<times> newPoint) list \<Rightarrow> error + (string \<times> newPoint) list" where
  "eachNewPoint st f [] hashmap = Inr hashmap"
| "eachNewPoint st f (p # ps) hashmap =
     (case f (st p) of
        Inl err \<Rightarrow> Inl err
      | Inr vals \<Rightarrow>
          eachNewPoint st f ps
            (AList.update (point_id (st p)) \<lparr>newPoint_point = p, newValues = vals\<rparr> hashmap))"

text \<open>\<^verbatim>\<open>getNewPoints(dragDropData, newPos)\<close>.\<close>

definition getNewPoints ::
  "(ref \<Rightarrow> Point) \<Rightarrow> Series \<Rightarrow> DragDropData \<Rightarrow> 'a pos_scheme \<Rightarrow>
   error + (string \<times> newPoint) list" where
  "getNewPoints st ser d newPos =
     (let opts = merge (series_dragDrop ser) (point_dragDrop (st (point d)));
          resizeProp = updateProp d;
          updateProps = filter (toUpdate opts resizeProp) (dragDropProps ser)
      in eachNewPoint st (\<lambda>p. getDropValues ser p (origin d) newPos updateProps)
           (if nameSet resizeProp then [point d] else groupedPoints d) [])"

text \<open>
  Modelled from the spec: \<^verbatim>\<open>point.update(newValues, false)\<close> belongs to the chart library's
  point model (``point field read/write''); it writes the given props on the point.
\<close>

definition point_update :: "Point \<Rightarrow> (string \<times> real) list \<Rightarrow> Point" where
  "point_update p vals = p\<lparr>props := props p ++ map_of vals\<rparr>"

text \<open>
  \<^verbatim>\<open>updatePoints(chart, animate)\<close>: the flag, then the update of every point of
  \<^verbatim>\<open>newPoints\<close>.  The redraw and the timer that clears the flag later are not modelled.
\<close>

definition updatePoints :: "Chart \<Rightarrow> error + Chart" where
  "updatePoints chart =
     (case dragDropData chart of
        None \<Rightarrow> Inl TypeError
      | Some d \<Rightarrow>
          Inr (chart\<lparr>isDragDropAnimating := True,
                 store := fold (\<lambda>np st. st(newPoint_point (snd np) :=
                                   point_update (st (newPoint_point (snd np))) (newValues (snd np))))
                            (case newPoints d of None \<Rightarrow> [] | Some nps \<Rightarrow> nps) (store chart)\<rparr>))"

text \<open>
  The condition of \<^verbatim>\<open>resizeGuideBox\<close> for flipping the side:
  \<^verbatim>\<open>resizeProp.axis === 'x' && series.xAxis.reversed ||
  resizeProp.axis === 'y' && series.yAxis.reversed\<close>.
\<close>

definition axisReversed :: "Series \<Rightarrow> string \<Rightarrow> error + bool" where
  "axisReversed ser ax =
     (if ax = ''x'' then (case xAxis ser of None \<Rightarrow> Inl TypeError | Some a \<Rightarrow> Inr (reversed a))
      else if ax = ''y'' then (case yAxis ser of None \<Rightarrow> Inl TypeError | Some a \<Rightarrow> Inr (reversed a))
      else Inr False)"

text \<open>\<^verbatim>\<open>resizeGuideBox(point, dX, dY)\<close>.\<close>

definition resizeGuideBox :: "ref \<Rightarrow> real \<Rightarrow> real \<Rightarrow> Chart \<Rightarrow> error + Chart" where
  "resizeGuideBox r dX dY chart =
     (case dragDropData chart of
        None \<Rightarrow> Inl TypeError
      | Some d \<Rightarrow>
          (case (map_of (dragDropProps (series chart)) (pick (updateProp d) ''undefined''),
                 map_of (pick (newPoints d) []) (point_id (store chart r)),
                 dragGuideBox chart) of
             (Some resizeProp, Some np, Some box) \<Rightarrow>
               (let newPoint = newValues np;
                    side = (case resizeSide resizeProp of
                              None \<Rightarrow> None
                            | Some (Static s) \<Rightarrow> Some s
                            | Some (Computed f) \<Rightarrow> Some (f newPoint (store chart r)));
                    box' = (case beforeResize resizeProp of
                              None \<Rightarrow> box
                            | Some hook \<Rightarrow> hook box newPoint (store chart r))
                in case axisReversed (series chart) (axis resizeProp) of
                     Inl err \<Rightarrow> Inl err
                   | Inr flip \<Rightarrow>
                       Inr (chart\<lparr>dragGuideBox := Some
                         (resizeRect box'
                            (if flip then flipResizeSide side else side)
                            (if axis resizeProp = ''x'' then dX - pick (prevdX (origin d)) 0 else 0)
                            (if axis resizeProp = ''y'' then dY - pick (prevdY (origin d)) 0 else 0))\<rparr>))
           | _ \<Rightarrow> Inl TypeError))"

text \<open>
  \<^verbatim>\<open>Point.prototype.showDragHandles\<close>, as far as the chart state goes: the group of handles
  exists afterwards when some prop gets a handle.
\<close>

definition wantsHandle :: "dragDropOptions \<Rightarrow> dragDropProp \<Rightarrow> bool" where
  "wantsHandle opts val =
     (let named = (case optionName val of None \<Rightarrow> None | Some n \<Rightarrow> flags opts n)
      in resize val \<and>
         (case resizeSide val of None \<Rightarrow> False | Some (Static s) \<Rightarrow> s \<noteq> [] | Some (Computed f) \<Rightarrow> True) \<and>
         (flags opts (''draggable'' @ toUpperCase (axis val)) = Some True \<or> named = Some True) \<and>
         named \<noteq> Some False)"

definition showDragHandles :: "ref \<Rightarrow> Chart \<Rightarrow> Chart" where
  "showDragHandles r chart =
     (let opts = merge (series_dragDrop (series chart)) (point_dragDrop (store chart r))
      in if list_ex (\<lambda>kv. wantsHandle opts (snd kv)) (dragDropProps (series chart))
         then chart\<lparr>dragHandles := True\<rparr> else chart)"

definition hideDragHandles :: "Chart \<Rightarrow> Chart" where
  "hideDragHandles chart = (if dragHandles chart then chart\<lparr>dragHandles := False\<rparr> else chart)"

text \<open>
  Modelled from the spec: \<^verbatim>\<open>SVGElement.translate(x, y)\<close> belongs to the renderer; it places
  the element at the given offset from its own position.
\<close>

definition translate :: "rect \<Rightarrow> real \<Rightarrow> real \<Rightarrow> rect" where
  "translate r tx ty = r\<lparr>translateX := tx, translateY := ty\<rparr>"

text \<open>\<^verbatim>\<open>dragMove(e, point)\<close>, the default handler of the \<^verbatim>\<open>drag\<close> event.\<close>

definition dragMove :: "event \<Rightarrow> ref \<Rightarrow> Chart \<Rightarrow> error + Chart" where
  "dragMove e r chart =
     (case dragDropData chart of
        None \<Rightarrow> Inl TypeError
      | Some d \<Rightarrow>
          (let opts = merge (series_dragDrop (series chart)) (point_dragDrop (store chart r));
               draggableX = (flags opts ''draggableX'' = Some True);
               draggableY = (flags opts ''draggableY'' = Some True);
               dX0 = pageX e - pageX (origin d);
               dY0 = pageY e - pageY (origin d);
               dX = (if inverted chart then - dY0 else dX0);
               dY = (if inverted chart then - dX0 else dY0);
               remember = (\<lambda>c. c\<lparr>dragDropData :=
                   map_option (\<lambda>d'. d'\<lparr>origin := (origin d')\<lparr>prevdX := Some dX, prevdY := Some dY\<rparr>\<rparr>)
                     (dragDropData c)\<rparr>)
           in case getNewPoints (store chart) (series chart) d e of
                Inl err \<Rightarrow> Inl err
              | Inr hashmap \<Rightarrow>
                  (let chart1 = chart\<lparr>dragDropData := Some (d\<lparr>newPoints := Some hashmap\<rparr>)\<rparr>
                   in if pick (flags opts ''liveRedraw'') True
                      then (case updatePoints chart1 of
                              Inl err \<Rightarrow> Inl err
                            | Inr chart2 \<Rightarrow> Inr (remember (showDragHandles r (hideDragHandles chart2))))
                      else if nameSet (updateProp d)
                      then (case resizeGuideBox r dX dY chart1 of
                              Inl err \<Rightarrow> Inl err
                            | Inr chart2 \<Rightarrow> Inr (remember chart2))
                      else (case dragGuideBox chart1 of
                              None \<Rightarrow> Inl TypeError
                            | Some box \<Rightarrow>
                                Inr (remember (chart1\<lparr>dragGuideBox := Some
                                  (translate box (if draggableX then dX else 0)
                                     (if draggableY then dY else 0))\<rparr>))))))"

section \<open>The pointer event handlers\<close>

text \<open>
  \<^verbatim>\<open>mouseMove(e, chart)\<close>.  The \<^verbatim>\<open>drag\<close> event runs \<^verbatim>\<open>dragMove\<close> unless a user handler
  suppresses the default.
\<close>

definition mouseMove :: "event \<Rightarrow> Chart \<Rightarrow> error + Chart" where
  "mouseMove e chart =
     (if zoomOrPanKeyPressed chart e then Inr chart
      else case dragDropData chart of
        None \<Rightarrow> Inr chart
      | Some d \<Rightarrow>
          if isDragging d then
            (case (if \<not> draggedPastSensitivity d
                   then hasDraggedPastSensitivity e chart
                          (sensitivity (series chart) (store chart (point d)))
                   else Inr True) of
               Inl err \<Rightarrow> Inl err
             | Inr past \<Rightarrow>
                 (let chart1 = chart\<lparr>dragDropData := Some (d\<lparr>draggedPastSensitivity := past\<rparr>)\<rparr>
                  in if past \<and> \<not> defaultPrevented e then dragMove e (point d) chart1
                     else Inr chart1))
          else Inr chart)"

text \<open>
  \<^verbatim>\<open>mouseUp(e, chart)\<close>, also bound to \<^verbatim>\<open>mouseleave\<close> and \<^verbatim>\<open>touchend\<close>.  The \<^verbatim>\<open>drop\<close>
  event runs \<^verbatim>\<open>updatePoints\<close> unless a user handler suppresses the default.
\<close>

definition mouseUp :: "event \<Rightarrow> Chart \<Rightarrow> error + Chart" where
  "mouseUp e chart =
     (case (case dragDropData chart of
              None \<Rightarrow> Inr chart
            | Some d \<Rightarrow>
                if isDragging d \<and> draggedPastSensitivity d then
                  (if defaultPrevented e then Inr (hideDragHandles chart)
                   else updatePoints (hideDragHandles chart))
                else Inr chart) of
        Inl err \<Rightarrow> Inl err
      | Inr chart1 \<Rightarrow> Inr (chart1\<lparr>dragDropData := None, dragGuideBox := None\<rparr>))"

text \<open>\<^verbatim>\<open>mouseDown(e, chart)\<close>, also bound to \<^verbatim>\<open>touchstart\<close>.\<close>

definition mouseDown :: "event \<Rightarrow> Chart \<Rightarrow> error + Chart" where
  "mouseDown e chart =
     (if zoomOrPanKeyPressed chart e then Inr chart
      else if (case dragDropData chart of None \<Rightarrow> False | Some d \<Rightarrow> isDragging d)
      then mouseUp e chart
      else case hoverPoint chart of
        None \<Rightarrow> Inr chart
      | Some dragPoint \<Rightarrow>
          if isPointMovable (series chart) (store chart dragPoint) then
            (case initDragDrop e dragPoint chart of
               Inl err \<Rightarrow> Inl err
             | Inr chart1 \<Rightarrow>
                 Inr (chart1\<lparr>dragDropData :=
                        map_option (\<lambda>d. d\<lparr>isDragging := True\<rparr>) (dragDropData chart1)\<rparr>))
          else Inr chart)"

text \<open>\<^verbatim>\<open>onResizeHandleMouseDown(e, point, updateProp)\<close>.\<close>

definition onResizeHandleMouseDown :: "event \<Rightarrow> ref \<Rightarrow> string \<Rightarrow> Chart \<Rightarrow> error + Chart" where
  "onResizeHandleMouseDown e r key chart =
     (if zoomOrPanKeyPressed chart e then Inr chart
      else case initDragDrop e r chart of
        Inl err \<Rightarrow> Inl err
      | Inr chart1 \<Rightarrow>
          Inr (chart1\<lparr>dragDropData :=
                 map_option (\<lambda>d. d\<lparr>isDragging := True, updateProp := Some key\<rparr>)
                   (dragDropData chart1)\<rparr>))"

section \<open>Events in arrival order\<close>

text \<open>
  The listeners that the chart callback binds: \<^verbatim>\<open>mousedown\<close> and \<^verbatim>\<open>touchstart\<close> run
  \<^verbatim>\<open>mouseDown\<close>, \<^verbatim>\<open>mousemove\<close> and \<^verbatim>\<open>touchmove\<close> run \<^verbatim>\<open>mouseMove\<close>, \<^verbatim>\<open>mouseup\<close>,
  \<^verbatim>\<open>touchend\<close> and \<^verbatim>\<open>mouseleave\<close> run \<^verbatim>\<open>mouseUp\<close>, and a \<^verbatim>\<open>mousedown\<close> on a resize
  handle runs \<^verbatim>\<open>onResizeHandleMouseDown\<close> (and stops there).  The script is single
  threaded: a sequence of events is handled one after the other, and an exception ends it.
\<close>

datatype dom_event =
  Mousedown event
| Mousemove event
| Mouseup event
| Mouseleave event
| HandleMousedown event ref string

fun dispatch :: "dom_event \<Rightarrow> Chart \<Rightarrow> error + Chart" where
  "dispatch (Mousedown e) chart = mouseDown e chart"
| "dispatch (Mousemove e) chart = mouseMove e chart"
| "dispatch (Mouseup e) chart = mouseUp e chart"
| "dispatch (Mouseleave e) chart = mouseUp e chart"
| "dispatch (HandleMousedown e r key) chart = onResizeHandleMouseDown e r key chart"

fun run :: "dom_event list \<Rightarrow> Chart \<Rightarrow> error + Chart" where
  "run [] chart = Inr chart"
| "run (ev # evs) chart = (case dispatch ev chart of Inl err \<Rightarrow> Inl err | Inr chart' \<Rightarrow> run evs chart')"

section \<open>The capability registry\<close>

text \<open>
  \<^verbatim>\<open>H.seriesTypes.columnrange.prototype.dragDropProps\<close>: move \<open>x\<close>, move and resize
  \<open>low\<close> and \<open>high\<close>.  A comparison with a missing prop is false.
\<close>

definition columnrange_dragDropProps :: "(string \<times> dragDropProp) list" where
  "columnrange_dragDropProps =
     [(''x'', \<lparr>optionName = None, axis = ''x'', move = True, resize = False,
               resizeSide = None, propValidate = None, beforeResize = None\<rparr>),
      (''low'', \<lparr>optionName = Some ''draggableLow'', axis = ''y'', move = True, resize = True,
               resizeSide = Some (Static ''bottom''),
               propValidate = Some (\<lambda>val point.
                 case props point ''high'' of Some high \<Rightarrow> val < high | None \<Rightarrow> False),
               beforeResize = None\<rparr>),
      (''high'', \<lparr>optionName = Some ''draggableHigh'', axis = ''y'', move = True, resize = True,
               resizeSide = Some (Static ''top''),
               propValidate = Some (\<lambda>val point.
                 case props point ''low'' of Some low \<Rightarrow> val > low | None \<Rightarrow> False),
               beforeResize = None\<rparr>)]"

text \<open>
  \<^verbatim>\<open>H.seriesTypes.xrange.prototype.dragDropProps\<close>: move \<open>y\<close>, move and resize \<open>x\<close> and
  \<open>x2\<close>.
\<close>

definition xrange_dragDropProps :: "(string \<times> dragDropProp) list" where
  "xrange_dragDropProps =
     [(''y'', \<lparr>optionName = None, axis = ''y'', move = True, resize = False,
               resizeSide = None, propValidate = None, beforeResize = None\<rparr>),
      (''x'', \<lparr>optionName = Some ''draggableX1'', axis = ''x'', move = True, resize = True,
               resizeSide = Some (Static ''left''),
               propValidate = Some (\<lambda>val point.
                 case props point ''x2'' of Some x2 \<Rightarrow> val < x2 | None \<Rightarrow> False),
               beforeResize = None\<rparr>),
      (''x2'', \<lparr>optionName = Some ''draggableX2'', axis = ''x'', move = True, resize = True,
               resizeSide = Some (Static ''right''),
               propValidate = Some (\<lambda>val point.
                 case props point ''x'' of Some x \<Rightarrow> val > x | None \<Rightarrow> False),
               beforeResize = None\<rparr>)]"

section \<open>Scenario data\<close>

text \<open>A linear axis with \<open>toPixels v = 2 * v\<close>, vertical.\<close>

definition doubling_axis :: Axis where
  "doubling_axis = \<lparr>toPixels = (\<lambda>v. v * 2), toValue = (\<lambda>p. p / 2), horiz = False, reversed = False\<rparr>"

definition no_options :: dragDropOptions where
  "no_options = \<lparr>flags = Map.empty, nums = Map.empty, groupBy = None\<rparr>"

definition movable_y :: dragDropProp where
  "movable_y = \<lparr>optionName = None, axis = ''y'', move = True, resize = False,
     resizeSide = None, propValidate = None, beforeResize = None\<rparr>"

text \<open>Options with limits and a precision on the y axis, and the same without rounding.\<close>

definition limited_options :: dragDropOptions where
  "limited_options = \<lparr>flags = [''draggableY'' \<mapsto> True],
     nums = [''dragMinY'' \<mapsto> 1, ''dragMaxY'' \<mapsto> 5, ''dragPrecisionY'' \<mapsto> 2], groupBy = None\<rparr>"

definition unrounded_options :: dragDropOptions where
  "unrounded_options = \<lparr>flags = [''draggableY'' \<mapsto> True],
     nums = [''dragMinY'' \<mapsto> 1, ''dragMaxY'' \<mapsto> 20, ''dragPrecisionY'' \<mapsto> 0], groupBy = None\<rparr>"

definition identity_axis :: "bool \<Rightarrow> Axis" where
  "identity_axis h = \<lparr>toPixels = (\<lambda>v. v), toValue = (\<lambda>p. p), horiz = h, reversed = False\<rparr>"

definition y_series :: "dragDropOptions \<Rightarrow> Series" where
  "y_series opts = \<lparr>series_dragDrop = opts, dragDropProps = [(''y'', movable_y)],
     xAxis = Some (identity_axis True), yAxis = Some doubling_axis, series_points = [0]\<rparr>"

definition no_box :: rect where
  "no_box = \<lparr>rect_x = 0, rect_y = 0, rect_width = 0, rect_height = 0, translateX = 0, translateY = 0\<rparr>"

definition y_point :: "real \<Rightarrow> Point" where
  "y_point v = \<lparr>point_id = ''p0'', props = [''x'' \<mapsto> 0, ''y'' \<mapsto> v], point_dragDrop = None,
     point_options = Map.empty, bBox = no_box\<rparr>"

definition y_origin :: "real \<Rightarrow> origin" where
  "y_origin v = \<lparr>pageX = 100, pageY = 100, origin_x = None, origin_y = None, guideBox = None,
     points = [''p0'' \<mapsto> [''y'' \<mapsto> v]], prevdX = None, prevdY = None\<rparr>"

definition down6 :: pos where
  "down6 = \<lparr>pageX = 100, pageY = 106\<rparr>"

text \<open>A column range series with one point, \<open>low = 5\<close> and \<open>high = 15\<close>.\<close>

definition low_prop :: dragDropProp where
  "low_prop = snd (columnrange_dragDropProps ! 1)"

definition range_series :: "bool \<Rightarrow> bool \<Rightarrow> Series" where
  "range_series live rv =
     \<lparr>series_dragDrop = \<lparr>flags = [''draggableY'' \<mapsto> True, ''liveRedraw'' \<mapsto> live],
                         nums = Map.empty, groupBy = None\<rparr>,
      dragDropProps = columnrange_dragDropProps,
      xAxis = Some (identity_axis True),
      yAxis = Some ((identity_axis False)\<lparr>reversed := rv\<rparr>),
      series_points = [0]\<rparr>"

definition range_point :: Point where
  "range_point = \<lparr>point_id = ''r0'', props = [''x'' \<mapsto> 0, ''y'' \<mapsto> 5, ''low'' \<mapsto> 5, ''high'' \<mapsto> 15],
     point_dragDrop = None, point_options = Map.empty,
     bBox = \<lparr>rect_x = 10, rect_y = 5, rect_width = 4, rect_height = 10, translateX = 0, translateY = 0\<rparr>\<rparr>"

definition range_origin :: origin where
  "range_origin = \<lparr>pageX = 100, pageY = 100, origin_x = None, origin_y = None, guideBox = None,
     points = [''r0'' \<mapsto> [''x'' \<mapsto> 0, ''low'' \<mapsto> 5, ''high'' \<mapsto> 15]], prevdX = None, prevdY = None\<rparr>"

definition down11 :: pos where
  "down11 = \<lparr>pageX = 100, pageY = 111\<rparr>"

text \<open>
  A pointer event at a position with no key held, an idle chart hovering its first point,
  and series options that set the sensitivity under its documented name.
\<close>

definition pointer_at :: "real \<Rightarrow> real \<Rightarrow> event" where
  "pointer_at px py = \<lparr>pageX = px, pageY = py, keys = (\<lambda>k. False), defaultPrevented = False\<rparr>"

definition idle_chart :: "Series \<Rightarrow> (ref \<Rightarrow> Point) \<Rightarrow> Chart" where
  "idle_chart ser st = \<lparr>series = ser, store = st, hoverPoint = Some 0, inverted = False,
     panKey = None, zoomKey = None, dragDropData = None, dragGuideBox = None, dragHandles = False,
     isDragDropAnimating = False, chart_isDragging = False\<rparr>"

definition documented_sensitivity :: dragDropOptions where
  "documented_sensitivity = \<lparr>flags = [''draggableY'' \<mapsto> True],
     nums = [''dragSensitivity'' \<mapsto> 10], groupBy = None\<rparr>"

definition draggable_y :: dragDropOptions where
  "draggable_y = \<lparr>flags = [''draggableY'' \<mapsto> True], nums = Map.empty, groupBy = None\<rparr>"

text \<open>
  A vertical axis whose scale changes at the value 10 (one pixel per unit below, two above),
  with \<open>toValue\<close> the inverse of \<open>toPixels\<close>.
\<close>

definition kinked_axis :: Axis where
  "kinked_axis = \<lparr>toPixels = (\<lambda>v. if v \<le> 10 then v else 10 + 2 * (v - 10)),
     toValue = (\<lambda>p. if p \<le> 10 then p else 10 + (p - 10) / 2), horiz = False, reversed = False\<rparr>"

definition kinked_series :: Series where
  "kinked_series = (y_series draggable_y)\<lparr>yAxis := Some kinked_axis\<rparr>"

definition shift_at :: "real \<Rightarrow> real \<Rightarrow> event" where
  "shift_at px py = (pointer_at px py)\<lparr>keys := (\<lambda>k. k = ''shiftKey'')\<rparr>"

text \<open>The chart after a pointer-down at (100, 100) on the point \<open>y = 10\<close>.\<close>

definition armed_chart :: Chart where
  "armed_chart = (idle_chart (y_series draggable_y) (\<lambda>r. y_point 10))
     \<lparr>dragDropData := Some \<lparr>origin = y_origin 10, point = 0, groupedPoints = [0], isDragging = True,
        updateProp = None, draggedPastSensitivity = False, newPoints = None\<rparr>,
      chart_isDragging := True\<rparr>"

definition zoom_armed_chart :: Chart where
  "zoom_armed_chart = armed_chart\<lparr>zoomKey := Some ''shift''\<rparr>"

text \<open>
  A chart without live redraw and with both axes reversed, in the middle of a resize of the
  prop \<open>key\<close> with the guide box shown.
\<close>

definition reversed_series :: "(string \<times> dragDropProp) list \<Rightarrow> Series" where
  "reversed_series pr =
     \<lparr>series_dragDrop = \<lparr>flags = [''draggableX'' \<mapsto> True, ''draggableY'' \<mapsto> True, ''liveRedraw'' \<mapsto> False],
                         nums = Map.empty, groupBy = None\<rparr>,
      dragDropProps = pr,
      xAxis = Some ((identity_axis True)\<lparr>reversed := True\<rparr>),
      yAxis = Some ((identity_axis False)\<lparr>reversed := True\<rparr>),
      series_points = [0]\<rparr>"

definition guide :: rect where
  "guide = \<lparr>rect_x = 10, rect_y = 5, rect_width = 4, rect_height = 10, translateX = 0, translateY = 0\<rparr>"

definition resizing :: "string \<Rightarrow> DragDropData" where
  "resizing key = \<lparr>origin = range_origin\<lparr>guideBox := Some guide\<rparr>, point = 0, groupedPoints = [0],
     isDragging = True, updateProp = Some key, draggedPastSensitivity = True,
     newPoints = Some [(''r0'', \<lparr>newPoint_point = 0, newValues = []\<rparr>)]\<rparr>"

definition resizing_chart :: "(string \<times> dragDropProp) list \<Rightarrow> string \<Rightarrow> Chart" where
  "resizing_chart pr key = (idle_chart (reversed_series pr) (\<lambda>r. range_point))
     \<lparr>dragDropData := Some (resizing key), dragGuideBox := Some guide, chart_isDragging := True\<rparr>"

text \<open>
  A series grouped by the point option \<open>group\<close>, with three points: \<open>a\<close> and \<open>b\<close> carry the
  group value \<open>g\<close>, \<open>c\<close> another one; \<open>a\<close> may have options of its own.  In \<open>group_store\<close>
  they are at \<open>y = 10\<close> and \<open>y = 10.5\<close>, and \<open>group_session\<close> is the drag data after a
  pointer-down at (100, 100) on \<open>a\<close>.  The column range series is grouped in the same way,
  its second point with a \<open>high\<close> of its own; with \<^verbatim>\<open>draggableLow\<close> off only \<open>high\<close> moves.
\<close>

definition group_options :: "real option \<Rightarrow> dragDropOptions" where
  "group_options P = \<lparr>flags = [''draggableY'' \<mapsto> True],
     nums = (case P of None \<Rightarrow> Map.empty | Some v \<Rightarrow> [''dragPrecisionY'' \<mapsto> v]),
     groupBy = Some ''group''\<rparr>"

definition group_series :: "real option \<Rightarrow> Series" where
  "group_series P = (y_series (group_options P))\<lparr>series_points := [0, 1, 2]\<rparr>"

definition group_points :: "real \<Rightarrow> real \<Rightarrow> dragDropOptions option \<Rightarrow> ref \<Rightarrow> Point" where
  "group_points y0 y1 popts r =
     \<lparr>point_id = (if r = 0 then ''a'' else if r = 1 then ''b'' else ''c''),
      props = [''x'' \<mapsto> 0, ''y'' \<mapsto> (if r = 0 then y0 else if r = 1 then y1 else 1)],
      point_dragDrop = (if r = 0 then popts else None),
      point_options = (if r = 2 then [''group'' \<mapsto> JStr ''other''] else [''group'' \<mapsto> JStr ''g'']),
      bBox = no_box\<rparr>"

definition group_store :: "ref \<Rightarrow> Point" where
  "group_store = group_points 10 (21 / 2) None"

definition anchor_maximum :: dragDropOptions where
  "anchor_maximum = \<lparr>flags = Map.empty, nums = [''dragMaxY'' \<mapsto> 11], groupBy = None\<rparr>"

definition kinked_group_series :: Series where
  "kinked_group_series = (group_series (Some 0))\<lparr>yAxis := Some kinked_axis\<rparr>"

definition group_session :: DragDropData where
  "group_session =
     \<lparr>origin = getPositionSnapshot group_store (group_series (Some 0))
                 (pointer_at 100 100) [0, 1] None,
      point = 0, groupedPoints = [0, 1], isDragging = True, updateProp = None,
      draggedPastSensitivity = False, newPoints = None\<rparr>"

definition range_group_series :: Series where
  "range_group_series = (range_series True False)
     \<lparr>series_dragDrop := (series_dragDrop (range_series True False))\<lparr>groupBy := Some ''group''\<rparr>,
      series_points := [0, 1]\<rparr>"

definition high_only_series :: Series where
  "high_only_series = range_group_series
     \<lparr>series_dragDrop := \<lparr>flags = [''draggableY'' \<mapsto> True, ''draggableLow'' \<mapsto> False],
                          nums = [''dragPrecisionY'' \<mapsto> 0], groupBy = Some ''group''\<rparr>\<rparr>"

definition range_group_store :: "real \<Rightarrow> ref \<Rightarrow> Point" where
  "range_group_store h r = range_point
     \<lparr>point_id := (if r = 0 then ''r0'' else ''r1''),
      props := (if r = 0 then props range_point
                else [''x'' \<mapsto> 0, ''y'' \<mapsto> 5, ''low'' \<mapsto> 5, ''high'' \<mapsto> h]),
      point_options := [''group'' \<mapsto> JStr ''g'']\<rparr>"

lemmas scen = limited_options_def unrounded_options_def identity_axis_def y_series_def no_box_def
  y_point_def y_origin_def down6_def movable_y_def doubling_axis_def no_options_def
  columnrange_dragDropProps_def low_prop_def range_series_def range_point_def
  range_origin_def down11_def pointer_at_def idle_chart_def documented_sensitivity_def
  draggable_y_def kinked_axis_def kinked_series_def shift_at_def armed_chart_def
  zoom_armed_chart_def xrange_dragDropProps_def reversed_series_def guide_def resizing_def
  resizing_chart_def group_options_def group_series_def group_points_def group_store_def
  anchor_maximum_def kinked_group_series_def group_session_def range_group_series_def
  high_only_series_def range_group_store_def

lemmas model = getDropValues_def assignProp_def dXValue_def dYValue_def limitToRange_def merge_def
  pick_def Math_round_def Math_max_def Math_min_def toUpperCase_def

lemmas session = mouseDown_def mouseMove_def mouseUp_def initDragDrop_def dragMove_def
  zoomOrPanKeyPressed_def keyProperty_def isPointMovable_def getGroupedPoints_def
  getPositionSnapshot_def hasDraggedPastSensitivity_def sensitivity_def defaultDragSensitivity_def
  getNewPoints_def toUpdate_def enabled_def nameSet_def updatePoints_def point_update_def
  showDragHandles_def hideDragHandles_def wantsHandle_def Let_def

section \<open>Properties of the value translator\<close>

subsection \<open>What an entry of the result is\<close>

lemma assignProps_mem:
  "assignProps f ups = Inr res \<Longrightarrow> (k, v) \<in> set res \<Longrightarrow> \<exists>kv \<in> set ups. f kv = Inr (Some (k, v))"
  by (induction ups arbitrary: res) (auto split: sum.splits option.splits)

lemma assignProp_Some:
  assumes "assignProp options pt single dXv dYv pointOrigin kv = Inr (Some (k, v))"
  shows "\<exists>po oldVal d. pointOrigin = Some po \<and> po (fst kv) = Some oldVal \<and>
           (if axis (snd kv) = ''x'' then dXv else dYv) = Some d \<and> k = fst kv \<and>
           v = limitToRange options (oldVal + d) (toUpperCase (axis (snd kv)))"
  using assms
  by (auto simp: assignProp_def Let_def split: option.splits if_splits)

lemma getDropValues_entry:
  assumes res: "getDropValues ser pt org newPos updateProps = Inr result"
      and mem: "(key, v) \<in> set result"
      and dist: "distinct (map fst updateProps)"
      and val: "map_of updateProps key = Some val"
  shows "\<exists>po oldVal d.
           points org (point_id pt) = Some po \<and> po key = Some oldVal \<and>
           (if axis val = ''x'' then dXValue ser pt org newPos
            else dYValue ser pt org newPos) = Inr (Some d) \<and>
           v = limitToRange (merge (series_dragDrop ser) (point_dragDrop pt)) (oldVal + d)
                 (toUpperCase (axis val))"
proof -
  from res obtain dXv dYv where
    dx: "dXValue ser pt org newPos = Inr dXv" and
    dy: "dYValue ser pt org newPos = Inr dYv" and
    ap: "assignProps (assignProp (merge (series_dragDrop ser) (point_dragDrop pt)) pt
            (updateSingleProp updateProps) dXv dYv (points org (point_id pt))) updateProps
         = Inr result"
    by (auto simp: getDropValues_def Let_def split: sum.splits)
  from assignProps_mem [OF ap mem] obtain kv where
    kv: "kv \<in> set updateProps" and
    f: "assignProp (merge (series_dragDrop ser) (point_dragDrop pt)) pt
            (updateSingleProp updateProps) dXv dYv (points org (point_id pt)) kv
        = Inr (Some (key, v))"
    by blast
  from assignProp_Some [OF f] obtain po oldVal d where
    po: "points org (point_id pt) = Some po" "po (fst kv) = Some oldVal"
        "(if axis (snd kv) = ''x'' then dXv else dYv) = Some d" "key = fst kv"
        "v = limitToRange (merge (series_dragDrop ser) (point_dragDrop pt)) (oldVal + d)
               (toUpperCase (axis (snd kv)))"
    by blast
  from kv po(4) have "(key, snd kv) \<in> set updateProps" by simp
  with dist have "map_of updateProps key = Some (snd kv)" by simp
  with val have sv: "snd kv = val" by simp
  show ?thesis
    using po dx dy sv by auto
qed

lemma limitToRange_bounds:
  assumes "nums options (''dragMin'' @ direction) = Some mn"
      and "nums options (''dragMax'' @ direction) = Some mx"
      and "mn \<le> mx"
  shows "mn \<le> limitToRange options x direction \<and> limitToRange options x direction \<le> mx"
  using assms by (simp add: limitToRange_def Let_def Math_max_def Math_min_def)

lemma limitToRange_multiple:
  assumes "nums options (''dragMin'' @ direction) = Some mn"
      and "nums options (''dragMax'' @ direction) = Some mx"
      and "nums options (''dragPrecision'' @ direction) = Some P"
      and "P \<noteq> 0"
  shows "(\<exists>n::int. limitToRange options x direction = of_int n * P) \<or>
         limitToRange options x direction = mn \<or> limitToRange options x direction = mx"
proof -
  let ?r = "of_int \<lfloor>x / P + 1 / 2\<rfloor> * P"
  have "limitToRange options x direction = max mn (min mx ?r)"
    using assms by (simp add: limitToRange_def Let_def Math_max_def Math_min_def pick_def Math_round_def)
  then show ?thesis
    by (auto simp: max_def min_def)
qed

lemma limitToRange_no_precision:
  assumes "nums options (''dragPrecision'' @ direction) = Some 0"
  shows "limitToRange options x direction =
         Math_max (nums options (''dragMin'' @ direction)) (Math_min (nums options (''dragMax'' @ direction)) x)"
  using assms by (simp add: limitToRange_def Let_def pick_def)

lemma limitToRange_default_precision:
  assumes "nums options (''dragPrecision'' @ direction) = None"
  shows "limitToRange options x direction =
         Math_max (nums options (''dragMin'' @ direction))
           (Math_min (nums options (''dragMax'' @ direction)) (of_int \<lfloor>x + 1 / 2\<rfloor>))"
  using assms by (simp add: limitToRange_def Let_def pick_def Math_round_def)

subsection \<open>The scenario of a single movable prop\<close>

text \<open>
  C1.  A series whose only movable prop is \<open>y\<close>, a point with \<open>y = 10\<close> (recorded as such in
  the snapshot), a vertical axis with \<open>toPixels v = 2 * v\<close> and \<open>toValue\<close> its inverse, no
  precision, minimum or maximum configured on the series or the point, and a pointer that
  has moved 6 pixels down (and any distance sideways): the value delta \<^verbatim>\<open>dYValue\<close> is
  \<open>(2 * 10 + 6) / 2 - 10 = 3\<close> and \<^verbatim>\<open>getDropValues\<close> proposes \<open>y = 13\<close>.
\<close>

theorem getDropValues_scenario_y_13:
  "dYValue
     \<lparr>series_dragDrop = no_options, dragDropProps = [(''y'', movable_y)],
      xAxis = Some xa, yAxis = Some doubling_axis, series_points = ps\<rparr>
     \<lparr>point_id = i, props = [''x'' \<mapsto> x0, ''y'' \<mapsto> 10], point_dragDrop = None,
      point_options = po, bBox = bb\<rparr>
     \<lparr>pageX = px, pageY = py, origin_x = None, origin_y = None, guideBox = None,
      points = [i \<mapsto> [''y'' \<mapsto> 10]], prevdX = None, prevdY = None\<rparr>
     \<lparr>pageX = px', pageY = py + 6\<rparr>
   = Inr (Some 3) \<and>
   getDropValues
     \<lparr>series_dragDrop = no_options, dragDropProps = [(''y'', movable_y)],
      xAxis = Some xa, yAxis = Some doubling_axis, series_points = ps\<rparr>
     \<lparr>point_id = i, props = [''x'' \<mapsto> x0, ''y'' \<mapsto> 10], point_dragDrop = None,
      point_options = po, bBox = bb\<rparr>
     \<lparr>pageX = px, pageY = py, origin_x = None, origin_y = None, guideBox = None,
      points = [i \<mapsto> [''y'' \<mapsto> 10]], prevdX = None, prevdY = None\<rparr>
     \<lparr>pageX = px', pageY = py + 6\<rparr>
     [(''y'', movable_y)]
   = Inr [(''y'', 13)]"
  by (simp add: getDropValues_def assignProp_def dXValue_def dYValue_def limitToRange_def merge_def
      no_options_def movable_y_def doubling_axis_def pick_def Math_round_def Math_max_def
      Math_min_def toUpperCase_def)

subsection \<open>Precision and limits\<close>

lemma five_not_even: "\<not> (\<exists>n::int. (5::real) = of_int n * 2)"
proof
  assume "\<exists>n::int. (5::real) = of_int n * 2"
  then obtain n :: int where "(5::real) = of_int n * 2" ..
  then have "(of_int (5::int) :: real) = of_int (n * 2)" by simp
  then have "(5::int) = n * 2" by (simp only: of_int_eq_iff)
  then show False by presburger
qed


text \<open>
  C2, as stated, fails.  With \<^verbatim>\<open>dragMinY = 1\<close>, \<^verbatim>\<open>dragMaxY = 5\<close> and
  \<^verbatim>\<open>dragPrecisionY = 2\<close>, a point at \<open>y = 10\<close> dragged to the proposal 13 is rounded to 14
  and then clamped to the maximum 5, which is not a multiple of 2.
\<close>

theorem getDropValues_multiple_counterexample:
  "getDropValues (y_series limited_options) (y_point 10) (y_origin 10) down6 [(''y'', movable_y)]
     = Inr [(''y'', 5)] \<and>
   \<not> (\<exists>n::int. (5::real) = of_int n * 2)"
  using five_not_even by (simp add: scen model)


text \<open>
  C2, amended.  For a configured minimum \<open>mn \<le> mx\<close> and a configured precision \<open>P\<close> on the
  axis of a prop, each value that \<^verbatim>\<open>getDropValues\<close> outputs for the prop lies within
  \<open>[mn, mx]\<close>; for \<open>P > 0\<close> it is a multiple of \<open>P\<close> or one of the two bounds (the rounding
  comes before the clamping); for \<open>P = 0\<close> it is the unrounded proposal, the recorded value
  plus the value delta of the axis, clamped into \<open>[mn, mx]\<close>.
\<close>

theorem getDropValues_precision_limits:
  assumes res: "getDropValues ser pt org newPos updateProps = Inr result"
      and mem: "(key, v) \<in> set result"
      and dist: "distinct (map fst updateProps)"
      and val: "map_of updateProps key = Some val"
      and mn: "nums (merge (series_dragDrop ser) (point_dragDrop pt))
                 (''dragMin'' @ toUpperCase (axis val)) = Some mn"
      and mx: "nums (merge (series_dragDrop ser) (point_dragDrop pt))
                 (''dragMax'' @ toUpperCase (axis val)) = Some mx"
      and prec: "nums (merge (series_dragDrop ser) (point_dragDrop pt))
                 (''dragPrecision'' @ toUpperCase (axis val)) = Some P"
      and le: "mn \<le> mx"
  shows "mn \<le> v \<and> v \<le> mx \<and>
         (0 < P \<longrightarrow> (\<exists>n::int. v = of_int n * P) \<or> v = mn \<or> v = mx) \<and>
         (P = 0 \<longrightarrow>
            (\<exists>po oldVal d.
               points org (point_id pt) = Some po \<and> po key = Some oldVal \<and>
               (if axis val = ''x'' then dXValue ser pt org newPos
                else dYValue ser pt org newPos) = Inr (Some d) \<and>
               v = max mn (min mx (oldVal + d))))"
proof -
  from getDropValues_entry [OF res mem dist val] obtain po oldVal d where
    e: "points org (point_id pt) = Some po" "po key = Some oldVal"
       "(if axis val = ''x'' then dXValue ser pt org newPos
         else dYValue ser pt org newPos) = Inr (Some d)"
       "v = limitToRange (merge (series_dragDrop ser) (point_dragDrop pt)) (oldVal + d)
              (toUpperCase (axis val))"
    by blast
  have b: "mn \<le> v \<and> v \<le> mx"
    unfolding e(4) by (rule limitToRange_bounds [OF mn mx le])
  have m: "0 < P \<longrightarrow> (\<exists>n::int. v = of_int n * P) \<or> v = mn \<or> v = mx"
    unfolding e(4) using limitToRange_multiple [OF mn mx prec] by auto
  have z: "P = 0 \<longrightarrow> v = max mn (min mx (oldVal + d))"
    unfolding e(4) using limitToRange_no_precision [of _ "toUpperCase (axis val)"] prec mn mx
    by (auto simp: Math_max_def Math_min_def)
  from b m z e(1,2,3) show ?thesis by blast
qed

theorem getDropValues_precision_limits_witness:
  "getDropValues (y_series limited_options) (y_point 10) (y_origin 10) down6 [(''y'', movable_y)]
     = Inr [(''y'', 5)] \<and> (1::real) \<le> 5 \<and>
   getDropValues (y_series unrounded_options) (y_point (52 / 5)) (y_origin (52 / 5)) down6
     [(''y'', movable_y)] = Inr [(''y'', 67 / 5)] \<and>
   (67 / 5 :: real) = max 1 (min 20 (52 / 5 + 3))"
proof -
  have dist: "distinct (map fst [(''y'', movable_y)])" by simp
  have val: "map_of [(''y'', movable_y)] ''y'' = Some movable_y" by simp
  have res1: "getDropValues (y_series limited_options) (y_point 10) (y_origin 10) down6
      [(''y'', movable_y)] = Inr [(''y'', 5)]"
    by (simp add: scen model)
  have mem1: "(''y'', 5) \<in> set [(''y'', 5::real)]" by simp
  have mn1: "nums (merge (series_dragDrop (y_series limited_options)) (point_dragDrop (y_point 10)))
      (''dragMin'' @ toUpperCase (axis movable_y)) = Some 1"
    by (simp add: scen model)
  have mx1: "nums (merge (series_dragDrop (y_series limited_options)) (point_dragDrop (y_point 10)))
      (''dragMax'' @ toUpperCase (axis movable_y)) = Some 5"
    by (simp add: scen model)
  have pr1: "nums (merge (series_dragDrop (y_series limited_options)) (point_dragDrop (y_point 10)))
      (''dragPrecision'' @ toUpperCase (axis movable_y)) = Some 2"
    by (simp add: scen model)
  have le1: "(1::real) \<le> 5" by simp
  note t1 = getDropValues_precision_limits [OF res1 mem1 dist val mn1 mx1 pr1 le1]
  have res2: "getDropValues (y_series unrounded_options) (y_point (52 / 5)) (y_origin (52 / 5)) down6
      [(''y'', movable_y)] = Inr [(''y'', 67 / 5)]"
    by (simp add: scen model)
  have mem2: "(''y'', 67 / 5) \<in> set [(''y'', 67 / 5 :: real)]" by simp
  have mn2: "nums (merge (series_dragDrop (y_series unrounded_options))
      (point_dragDrop (y_point (52 / 5)))) (''dragMin'' @ toUpperCase (axis movable_y)) = Some 1"
    by (simp add: scen model)
  have mx2: "nums (merge (series_dragDrop (y_series unrounded_options))
      (point_dragDrop (y_point (52 / 5)))) (''dragMax'' @ toUpperCase (axis movable_y)) = Some 20"
    by (simp add: scen model)
  have pr2: "nums (merge (series_dragDrop (y_series unrounded_options))
      (point_dragDrop (y_point (52 / 5)))) (''dragPrecision'' @ toUpperCase (axis movable_y)) = Some 0"
    by (simp add: scen model)
  have le2: "(1::real) \<le> 20" by simp
  note t2 = getDropValues_precision_limits [OF res2 mem2 dist val mn2 mx2 pr2 le2]
  from t1 t2 res1 res2 show ?thesis by simp
qed

subsection \<open>Validation of a single prop\<close>

text \<open>
  C3.  When \<^verbatim>\<open>getDropValues\<close> computes exactly one prop, the prop declares a validation
  function and the function returns false on the new value (the limited proposal) and the
  point, the prop is absent from the result, and a point updated with the result keeps what
  it had.  The witness is the column range point with \<open>low = 5\<close> and \<open>high = 15\<close>: a resize of
  \<open>low\<close> that proposes 16 fails \<open>low < high\<close>, the result is empty and \<open>low\<close> stays 5, also
  through the whole gesture on the handle (down, move, up) with live redraw.
\<close>

theorem getDropValues_single_prop_validation:
  assumes dx: "dXValue ser pt org newPos = Inr dXv"
      and dy: "dYValue ser pt org newPos = Inr dYv"
      and po: "points org (point_id pt) = Some po"
      and old: "po key = Some oldVal"
      and d: "(if axis val = ''x'' then dXv else dYv) = Some d"
      and pv: "propValidate val = Some validate"
      and bad: "\<not> validate (limitToRange (merge (series_dragDrop ser) (point_dragDrop pt))
                   (oldVal + d) (toUpperCase (axis val))) pt"
  shows "getDropValues ser pt org newPos [(key, val)] = Inr [] \<and> point_update pt [] = pt"
  using assms
  by (auto simp: getDropValues_def Let_def assignProp_def point_update_def)

theorem getDropValues_single_prop_validation_witness:
  "props range_point ''low'' = Some 5 \<and> props range_point ''high'' = Some 15 \<and>
   limitToRange (series_dragDrop (range_series True False)) (5 + 11) ''Y'' = 16 \<and>
   getDropValues (range_series True False) range_point range_origin down11 [(''low'', low_prop)] = Inr [] \<and>
   props (point_update range_point []) ''low'' = Some 5 \<and>
   (case run [HandleMousedown (pointer_at 100 100) 0 ''low'', Mousemove (pointer_at 100 111),
              Mouseup (pointer_at 100 111)]
           (idle_chart (range_series True False) (\<lambda>r. range_point)) of
      Inr c \<Rightarrow> (props (store c 0) ''low'', props (store c 0) ''high'') | Inl err \<Rightarrow> (None, None))
     = (Some 5, Some 15)"
proof -
  have whole: "(case run [HandleMousedown (pointer_at 100 100) 0 ''low'', Mousemove (pointer_at 100 111),
              Mouseup (pointer_at 100 111)]
           (idle_chart (range_series True False) (\<lambda>r. range_point)) of
      Inr c \<Rightarrow> (props (store c 0) ''low'', props (store c 0) ''high'') | Inl err \<Rightarrow> (None, None))
     = (Some 5, Some 15)"
    by (simp add: scen session model onResizeHandleMouseDown_def real_less_rsqrt)
  have dx: "dXValue (range_series True False) range_point range_origin down11 = Inr (Some 0)"
    by (simp add: scen dXValue_def)
  have dy: "dYValue (range_series True False) range_point range_origin down11 = Inr (Some 11)"
    by (simp add: scen dYValue_def)
  have po: "points range_origin (point_id range_point)
              = Some [''x'' \<mapsto> 0, ''low'' \<mapsto> 5, ''high'' \<mapsto> 15]"
    by (simp add: scen)
  have old: "[''x'' \<mapsto> 0, ''low'' \<mapsto> 5, ''high'' \<mapsto> (15::real)] ''low'' = Some 5"
    by simp
  have d: "(if axis low_prop = ''x'' then Some 0 else Some (11::real)) = Some 11"
    by (simp add: scen)
  have pv: "propValidate low_prop = Some (\<lambda>val point.
                 case props point ''high'' of Some high \<Rightarrow> val < high | None \<Rightarrow> False)"
    by (simp add: scen)
  have l: "limitToRange (merge (series_dragDrop (range_series True False)) (point_dragDrop range_point))
             (5 + 11) (toUpperCase (axis low_prop)) = 16"
    by (simp add: scen model)
  have bad: "\<not> (\<lambda>val point. case props point ''high'' of Some high \<Rightarrow> val < high | None \<Rightarrow> False)
               (limitToRange (merge (series_dragDrop (range_series True False)) (point_dragDrop range_point))
                  (5 + 11) (toUpperCase (axis low_prop))) range_point"
    unfolding l by (simp add: scen)
  have l': "limitToRange (series_dragDrop (range_series True False)) (5 + 11) ''Y'' = 16"
    by (simp add: scen model)
  from getDropValues_single_prop_validation [OF dx dy po old d pv bad] l' whole
  show ?thesis
    by (simp add: range_point_def)
qed

subsection \<open>The default precision\<close>

text \<open>
  C10.  Every value that \<^verbatim>\<open>getDropValues\<close> outputs is the proposal (recorded value plus
  value delta), rounded and then clamped into the configured limits.  With no precision
  configured for the axis the rounding is to the nearest integer, as with precision 1; the
  rounding is left out only when the configured precision is 0.
\<close>

theorem getDropValues_default_precision:
  assumes res: "getDropValues ser pt org newPos updateProps = Inr result"
      and mem: "(key, v) \<in> set result"
      and dist: "distinct (map fst updateProps)"
      and val: "map_of updateProps key = Some val"
  shows "\<exists>po oldVal d.
           points org (point_id pt) = Some po \<and> po key = Some oldVal \<and>
           (if axis val = ''x'' then dXValue ser pt org newPos
            else dYValue ser pt org newPos) = Inr (Some d) \<and>
           v = (let opts = merge (series_dragDrop ser) (point_dragDrop pt);
                    direction = toUpperCase (axis val)
                in Math_max (nums opts (''dragMin'' @ direction))
                     (Math_min (nums opts (''dragMax'' @ direction))
                        (case nums opts (''dragPrecision'' @ direction) of
                           None \<Rightarrow> of_int \<lfloor>oldVal + d + 1 / 2\<rfloor>
                         | Some P \<Rightarrow>
                             if P = 0 then oldVal + d
                             else of_int \<lfloor>(oldVal + d) / P + 1 / 2\<rfloor> * P)))"
proof -
  from getDropValues_entry [OF res mem dist val] obtain po oldVal d where
    e: "points org (point_id pt) = Some po" "po key = Some oldVal"
       "(if axis val = ''x'' then dXValue ser pt org newPos
         else dYValue ser pt org newPos) = Inr (Some d)"
       "v = limitToRange (merge (series_dragDrop ser) (point_dragDrop pt)) (oldVal + d)
              (toUpperCase (axis val))"
    by blast
  have "limitToRange (merge (series_dragDrop ser) (point_dragDrop pt)) (oldVal + d)
              (toUpperCase (axis val)) =
        (let opts = merge (series_dragDrop ser) (point_dragDrop pt);
                    direction = toUpperCase (axis val)
                in Math_max (nums opts (''dragMin'' @ direction))
                     (Math_min (nums opts (''dragMax'' @ direction))
                        (case nums opts (''dragPrecision'' @ direction) of
                           None \<Rightarrow> of_int \<lfloor>oldVal + d + 1 / 2\<rfloor>
                         | Some P \<Rightarrow>
                             if P = 0 then oldVal + d
                             else of_int \<lfloor>(oldVal + d) / P + 1 / 2\<rfloor> * P)))"
    by (simp add: limitToRange_def Let_def pick_def Math_round_def split: option.splits)
  with e show ?thesis by blast
qed

theorem getDropValues_default_precision_witness:
  "getDropValues (y_series no_options) (y_point (52 / 5)) (y_origin (52 / 5)) down6
     [(''y'', movable_y)] = Inr [(''y'', 13)] \<and>
   (13::real) = of_int \<lfloor>(52 / 5 :: real) + 3 + 1 / 2\<rfloor>"
proof -
  have dist: "distinct (map fst [(''y'', movable_y)])" by simp
  have val: "map_of [(''y'', movable_y)] ''y'' = Some movable_y" by simp
  have res: "getDropValues (y_series no_options) (y_point (52 / 5)) (y_origin (52 / 5)) down6
      [(''y'', movable_y)] = Inr [(''y'', 13)]"
    by (simp add: scen model)
  have mem: "(''y'', 13) \<in> set [(''y'', 13::real)]" by simp
  from getDropValues_default_precision [OF res mem dist val] res
  show ?thesis by simp
qed

section \<open>Properties of the session\<close>

subsection \<open>The sensitivity gate\<close>

text \<open>
  C4.  In a drag session that no earlier move has taken past the sensitivity, a pointer
  move whose Euclidean pixel distance from the pointer-down position is at most the
  threshold that \<^verbatim>\<open>mouseMove\<close> resolves leaves the chart as it is: \<^verbatim>\<open>newPoints\<close> is not
  computed and no point of the store is written.
\<close>

theorem mouseMove_within_sensitivity:
  assumes d: "dragDropData c = Some d"
      and notyet: "\<not> draggedPastSensitivity d"
      and near: "sqrt ((pageX e - pageX (origin d)) * (pageX e - pageX (origin d)) +
                       (pageY e - pageY (origin d)) * (pageY e - pageY (origin d)))
                 \<le> sensitivity (series c) (store c (point d))"
  shows "mouseMove e c = Inr c"
proof -
  have same: "c\<lparr>dragDropData := Some (d\<lparr>draggedPastSensitivity := False\<rparr>)\<rparr> = c"
    using d notyet by simp
  show ?thesis
    using d notyet near same
    by (simp add: mouseMove_def hasDraggedPastSensitivity_def Let_def not_less [symmetric])
qed

lemma armed_chart_reached:
  "run [Mousedown (pointer_at 100 100)] (idle_chart (y_series draggable_y) (\<lambda>r. y_point 10)) = Inr armed_chart"
  by (simp add: scen session pick_def)

theorem mouseMove_within_sensitivity_witness:
  "sqrt ((100 - 100) * (100 - 100) + (102 - 100) * (102 - 100)) \<le> (2::real) \<and>
   mouseMove (pointer_at 100 102) armed_chart = Inr armed_chart \<and>
   map_option newPoints (dragDropData armed_chart) = Some None"
proof -
  have d: "dragDropData armed_chart = Some \<lparr>origin = y_origin 10, point = 0, groupedPoints = [0],
        isDragging = True, updateProp = None, draggedPastSensitivity = False, newPoints = None\<rparr>"
    by (simp add: scen)
  have notyet: "\<not> draggedPastSensitivity \<lparr>origin = y_origin 10, point = 0, groupedPoints = [0],
        isDragging = True, updateProp = None, draggedPastSensitivity = False, newPoints = None\<rparr>"
    by simp
  have s4: "sqrt ((100 - 100) * (100 - 100) + (102 - 100) * (102 - 100)) = (2::real)"
    by simp
  have near: "sqrt ((pageX (pointer_at 100 102) - pageX (origin \<lparr>origin = y_origin 10, point = 0, groupedPoints = [0],
        isDragging = True, updateProp = None, draggedPastSensitivity = False, newPoints = None\<rparr>)) *
         (pageX (pointer_at 100 102) - pageX (origin \<lparr>origin = y_origin 10, point = 0, groupedPoints = [0],
        isDragging = True, updateProp = None, draggedPastSensitivity = False, newPoints = None\<rparr>)) +
         (pageY (pointer_at 100 102) - pageY (origin \<lparr>origin = y_origin 10, point = 0, groupedPoints = [0],
        isDragging = True, updateProp = None, draggedPastSensitivity = False, newPoints = None\<rparr>)) *
         (pageY (pointer_at 100 102) - pageY (origin \<lparr>origin = y_origin 10, point = 0, groupedPoints = [0],
        isDragging = True, updateProp = None, draggedPastSensitivity = False, newPoints = None\<rparr>)))
      \<le> sensitivity (series armed_chart) (store armed_chart (point \<lparr>origin = y_origin 10, point = 0, groupedPoints = [0],
        isDragging = True, updateProp = None, draggedPastSensitivity = False, newPoints = None\<rparr>))"
    by (simp add: scen sensitivity_def defaultDragSensitivity_def pick_def)
  from mouseMove_within_sensitivity [OF d notyet near] s4 d
  show ?thesis by simp
qed

text \<open>
  C9.  The threshold is resolved point first, then series, then the default 2, but under
  the property name \<^verbatim>\<open>dragSensitiviy\<close>.  A series that sets the documented option
  \<^verbatim>\<open>dragSensitivity\<close> to 10 gets the threshold 2, and a move of 5 pixels starts the drag
  and moves the point from \<open>y = 10\<close> to \<open>y = 12\<close>.
\<close>

theorem documented_dragSensitivity_ignored:
  "sensitivity (y_series documented_sensitivity) (y_point 10) = 2 \<and>
   (case run [Mousedown (pointer_at 100 100), Mousemove (pointer_at 103 104)]
           (idle_chart (y_series documented_sensitivity) (\<lambda>r. y_point 10)) of
      Inr c \<Rightarrow> (map_option draggedPastSensitivity (dragDropData c), props (store c 0) ''y'')
    | Inl err \<Rightarrow> (None, None)) = (Some True, Some 12)"
  by (simp add: scen session model real_less_rsqrt)

subsection \<open>The snapshot as the frame of reference\<close>

text \<open>
  C6.  The snapshot itself is not sampled again, but \<^verbatim>\<open>getDropValues\<close> converts the pixel
  delta at \<^verbatim>\<open>pick(origin.y, point.y)\<close>, and the snapshot has no \<^verbatim>\<open>y\<close> of its own: the
  conversion is made at the live point.  With live redraw on an axis that is not linear, a
  point recorded at \<open>y = 8\<close> and dragged 4 pixels goes to 11; a second move event at the very
  same pointer position puts it at 10, while the snapshot still records 8.
\<close>

theorem getDropValues_reads_live_point:
  "(case run [Mousedown (pointer_at 0 0), Mousemove (pointer_at 0 4)]
           (idle_chart kinked_series (\<lambda>r. y_point 8)) of
      Inr c \<Rightarrow> (props (store c 0) ''y'',
                map_option (\<lambda>d. points (origin d) ''p0'') (dragDropData c))
    | Inl err \<Rightarrow> (None, None)) = (Some 11, Some (Some [''y'' \<mapsto> 8])) \<and>
   (case run [Mousedown (pointer_at 0 0), Mousemove (pointer_at 0 4), Mousemove (pointer_at 0 4)]
           (idle_chart kinked_series (\<lambda>r. y_point 8)) of
      Inr c \<Rightarrow> (props (store c 0) ''y'',
                map_option (\<lambda>d. points (origin d) ''p0'') (dragDropData c))
    | Inl err \<Rightarrow> (None, None)) = (Some 10, Some (Some [''y'' \<mapsto> 8]))"
  by (simp add: scen session model real_less_rsqrt)

subsection \<open>The side of the guide box\<close>

text \<open>
  C7.  In a resize of a prop with a static side and no \<^verbatim>\<open>beforeResize\<close> hook, on a reversed
  axis the opposite edge of the guide box is resized: for the side \<open>top\<close> on a reversed y
  axis the bottom edge moves (the height changes, \<open>y\<close> stays), for \<open>bottom\<close> the top edge,
  and for \<open>left\<close> and \<open>right\<close> on a reversed x axis the right and the left edge.
\<close>

theorem resizeGuideBox_reversed_axis:
  assumes d: "dragDropData c = Some d"
      and key: "updateProp d = Some key"
      and rp: "map_of (dragDropProps (series c)) key = Some rp"
      and nps: "newPoints d = Some nps"
      and np: "map_of nps (point_id (store c r)) = Some np"
      and box: "dragGuideBox c = Some box"
      and hook: "beforeResize rp = None"
      and side: "resizeSide rp = Some (Static s)"
  shows "(s = ''top'' \<and> axis rp = ''y'' \<and> map_option reversed (yAxis (series c)) = Some True \<longrightarrow>
            resizeGuideBox r dX dY c =
              Inr (c\<lparr>dragGuideBox := Some (box\<lparr>rect_height :=
                     max 1 (rect_height box + (dY - pick (prevdY (origin d)) 0))\<rparr>)\<rparr>)) \<and>
         (s = ''bottom'' \<and> axis rp = ''y'' \<and> map_option reversed (yAxis (series c)) = Some True \<longrightarrow>
            resizeGuideBox r dX dY c =
              Inr (c\<lparr>dragGuideBox := Some (box\<lparr>rect_y := rect_y box + (dY - pick (prevdY (origin d)) 0),
                     rect_height := max 1 (rect_height box - (dY - pick (prevdY (origin d)) 0))\<rparr>)\<rparr>)) \<and>
         (s = ''left'' \<and> axis rp = ''x'' \<and> map_option reversed (xAxis (series c)) = Some True \<longrightarrow>
            resizeGuideBox r dX dY c =
              Inr (c\<lparr>dragGuideBox := Some (box\<lparr>rect_width :=
                     max 1 (rect_width box + (dX - pick (prevdX (origin d)) 0))\<rparr>)\<rparr>)) \<and>
         (s = ''right'' \<and> axis rp = ''x'' \<and> map_option reversed (xAxis (series c)) = Some True \<longrightarrow>
            resizeGuideBox r dX dY c =
              Inr (c\<lparr>dragGuideBox := Some (box\<lparr>rect_x := rect_x box + (dX - pick (prevdX (origin d)) 0),
                     rect_width := max 1 (rect_width box - (dX - pick (prevdX (origin d)) 0))\<rparr>)\<rparr>))"
  using assms
  by (auto simp: resizeGuideBox_def Let_def axisReversed_def flipResizeSide_def resizeRect_def pick_def
      split: option.splits)

theorem resizeGuideBox_reversed_axis_witness:
  "resizeGuideBox 0 0 3 (resizing_chart columnrange_dragDropProps ''high'')
     = Inr ((resizing_chart columnrange_dragDropProps ''high'')
              \<lparr>dragGuideBox := Some (guide\<lparr>rect_height := 13\<rparr>)\<rparr>) \<and>
   resizeGuideBox 0 0 3 (resizing_chart columnrange_dragDropProps ''low'')
     = Inr ((resizing_chart columnrange_dragDropProps ''low'')
              \<lparr>dragGuideBox := Some (guide\<lparr>rect_y := 8, rect_height := 7\<rparr>)\<rparr>) \<and>
   resizeGuideBox 0 3 0 (resizing_chart xrange_dragDropProps ''x'')
     = Inr ((resizing_chart xrange_dragDropProps ''x'')
              \<lparr>dragGuideBox := Some (guide\<lparr>rect_width := 7\<rparr>)\<rparr>) \<and>
   resizeGuideBox 0 3 0 (resizing_chart xrange_dragDropProps ''x2'')
     = Inr ((resizing_chart xrange_dragDropProps ''x2'')
              \<lparr>dragGuideBox := Some (guide\<lparr>rect_x := 13, rect_width := 1\<rparr>)\<rparr>) \<and>
   (case run [HandleMousedown (pointer_at 100 100) 0 ''high'', Mousemove (pointer_at 100 103)]
           (idle_chart (reversed_series columnrange_dragDropProps) (\<lambda>r. range_point)) of
      Inr c \<Rightarrow> dragGuideBox c | Inl err \<Rightarrow> None) = Some (guide\<lparr>rect_height := 13\<rparr>)"
proof -
  have nps: "newPoints (resizing k) = Some [(''r0'', \<lparr>newPoint_point = 0, newValues = []\<rparr>)]" for k
    by (simp add: scen)
  have key: "updateProp (resizing k) = Some k" for k
    by (simp add: scen)
  have d: "dragDropData (resizing_chart pr k) = Some (resizing k)" for pr k
    by (simp add: scen)
  have box: "dragGuideBox (resizing_chart pr k) = Some guide" for pr k
    by (simp add: scen)
  have np: "map_of [(''r0'', \<lparr>newPoint_point = 0, newValues = []\<rparr>)]
              (point_id (store (resizing_chart pr k) 0)) = Some \<lparr>newPoint_point = 0, newValues = []\<rparr>" for pr k
    by (simp add: scen)
  have high: "map_of (dragDropProps (series (resizing_chart columnrange_dragDropProps k))) ''high''
      = Some (snd (columnrange_dragDropProps ! 2))" for k
    by (simp add: scen)
  have low: "map_of (dragDropProps (series (resizing_chart columnrange_dragDropProps k))) ''low''
      = Some (snd (columnrange_dragDropProps ! 1))" for k
    by (simp add: scen)
  have x: "map_of (dragDropProps (series (resizing_chart xrange_dragDropProps k))) ''x''
      = Some (snd (xrange_dragDropProps ! 1))" for k
    by (simp add: scen)
  have x2: "map_of (dragDropProps (series (resizing_chart xrange_dragDropProps k))) ''x2''
      = Some (snd (xrange_dragDropProps ! 2))" for k
    by (simp add: scen)
  have t1: "resizeGuideBox 0 0 3 (resizing_chart columnrange_dragDropProps ''high'')
     = Inr ((resizing_chart columnrange_dragDropProps ''high'')
              \<lparr>dragGuideBox := Some (guide\<lparr>rect_height := 13\<rparr>)\<rparr>)"
    using resizeGuideBox_reversed_axis [OF d key high nps np box, of "''top''" 0 3]
    by (simp add: scen pick_def)
  have t2: "resizeGuideBox 0 0 3 (resizing_chart columnrange_dragDropProps ''low'')
     = Inr ((resizing_chart columnrange_dragDropProps ''low'')
              \<lparr>dragGuideBox := Some (guide\<lparr>rect_y := 8, rect_height := 7\<rparr>)\<rparr>)"
    using resizeGuideBox_reversed_axis [OF d key low nps np box, of "''bottom''" 0 3]
    by (simp add: scen pick_def)
  have t3: "resizeGuideBox 0 3 0 (resizing_chart xrange_dragDropProps ''x'')
     = Inr ((resizing_chart xrange_dragDropProps ''x'')
              \<lparr>dragGuideBox := Some (guide\<lparr>rect_width := 7\<rparr>)\<rparr>)"
    using resizeGuideBox_reversed_axis [OF d key x nps np box, of "''left''" 3 0]
    by (simp add: scen pick_def)
  have t4: "resizeGuideBox 0 3 0 (resizing_chart xrange_dragDropProps ''x2'')
     = Inr ((resizing_chart xrange_dragDropProps ''x2'')
              \<lparr>dragGuideBox := Some (guide\<lparr>rect_x := 13, rect_width := 1\<rparr>)\<rparr>)"
    using resizeGuideBox_reversed_axis [OF d key x2 nps np box, of "''right''" 3 0]
    by (simp add: scen pick_def)
  have t5: "(case run [HandleMousedown (pointer_at 100 100) 0 ''high'', Mousemove (pointer_at 100 103)]
           (idle_chart (reversed_series columnrange_dragDropProps) (\<lambda>r. range_point)) of
      Inr c \<Rightarrow> dragGuideBox c | Inl err \<Rightarrow> None) = Some (guide\<lparr>rect_height := 13\<rparr>)"
    by (simp add: scen session model onResizeHandleMouseDown_def getGuideBox_def
        resizeGuideBox_def axisReversed_def flipResizeSide_def resizeRect_def real_less_rsqrt)
  from t1 t2 t3 t4 t5 show ?thesis by simp
qed

subsection \<open>One session at a time\<close>

lemma mouseUp_closes:
  "\<exists>c'. mouseUp e c = Inr c' \<and> dragDropData c' = None \<and> dragGuideBox c' = None"
  by (auto simp: mouseUp_def updatePoints_def hideDragHandles_def split: option.splits)


text \<open>
  C8, as stated, fails.  With a zoom key configured and held, a pointer-down during a drag
  is ignored and the session stays open.  Without the key the pointer-down closes the
  session as a pointer-up does and that is all: the chart has no session afterwards, where
  a pointer-up followed by the same pointer-down starts one.
\<close>

theorem mouseDown_while_dragging_counterexample:
  "map_option isDragging (dragDropData zoom_armed_chart) = Some True \<and>
   mouseDown (shift_at 105 105) zoom_armed_chart = Inr zoom_armed_chart \<and>
   map_option isDragging (dragDropData armed_chart) = Some True \<and>
   (case mouseDown (pointer_at 105 105) armed_chart of
      Inr c \<Rightarrow> Some (map_option isDragging (dragDropData c)) | Inl err \<Rightarrow> None) = Some None \<and>
   (case run [Mouseup (pointer_at 105 105), Mousedown (pointer_at 105 105)] armed_chart of
      Inr c \<Rightarrow> Some (map_option isDragging (dragDropData c)) | Inl err \<Rightarrow> None) = Some (Some True)"
  by (simp add: scen session pick_def)

text \<open>
  C8, amended, for the pointer-down that the chart container receives (\<^verbatim>\<open>mouseDown\<close>); the
  listener of the resize handles is a path of its own and is not part of the statement.  The
  chart keeps its session in the one field \<^verbatim>\<open>dragDropData\<close>.  Every pointer-up or leave
  (\<^verbatim>\<open>mouseUp\<close>) returns a chart without session data and without guide box.  A pointer-down
  on the container during a drag is handled exactly as that pointer-up when no zoom or pan
  key is held, so it closes the session and starts no new one; with a zoom or pan key held it
  changes nothing, whatever the state of the chart.
\<close>

theorem mouseDown_while_dragging:
  "(\<exists>c'. mouseUp e c = Inr c' \<and> dragDropData c' = None \<and> dragGuideBox c' = None) \<and>
   (map_option isDragging (dragDropData c) = Some True \<and> \<not> zoomOrPanKeyPressed c e \<longrightarrow>
      mouseDown e c = mouseUp e c \<and>
      (\<exists>c'. mouseDown e c = Inr c' \<and> dragDropData c' = None \<and> dragGuideBox c' = None)) \<and>
   (zoomOrPanKeyPressed c e \<longrightarrow> mouseDown e c = Inr c)"
proof -
  have up: "\<exists>c'. mouseUp e c = Inr c' \<and> dragDropData c' = None \<and> dragGuideBox c' = None"
    by (rule mouseUp_closes)
  have down: "mouseDown e c = mouseUp e c"
    if "map_option isDragging (dragDropData c) = Some True" "\<not> zoomOrPanKeyPressed c e"
    using that by (auto simp: mouseDown_def split: option.splits)
  have key: "mouseDown e c = Inr c" if "zoomOrPanKeyPressed c e"
    using that by (simp add: mouseDown_def)
  from up down key show ?thesis
    by simp
qed

theorem mouseDown_while_dragging_witness:
  "map_option isDragging (dragDropData armed_chart) = Some True \<and>
   \<not> zoomOrPanKeyPressed armed_chart (pointer_at 105 105) \<and>
   mouseDown (pointer_at 105 105) armed_chart = mouseUp (pointer_at 105 105) armed_chart \<and>
   (case mouseDown (pointer_at 105 105) armed_chart of
      Inr c \<Rightarrow> Some (dragDropData c = None \<and> dragGuideBox c = None) | Inl err \<Rightarrow> None) = Some True \<and>
   zoomOrPanKeyPressed zoom_armed_chart (shift_at 105 105) \<and>
   mouseDown (shift_at 105 105) zoom_armed_chart = Inr zoom_armed_chart"
proof -
  have a: "map_option isDragging (dragDropData armed_chart) = Some True"
    by (simp add: scen)
  have b: "\<not> zoomOrPanKeyPressed armed_chart (pointer_at 105 105)"
    by (simp add: scen zoomOrPanKeyPressed_def)
  have z: "zoomOrPanKeyPressed zoom_armed_chart (shift_at 105 105)"
    by (simp add: scen zoomOrPanKeyPressed_def keyProperty_def)
  from mouseDown_while_dragging [of "pointer_at 105 105" armed_chart]
       mouseDown_while_dragging [of "shift_at 105 105" zoom_armed_chart] a b z
  show ?thesis by auto
qed

text \<open>
  The listener of a resize handle has no test for a drag in progress: a pointer-down on a
  handle during a resize without live redraw starts a session for the new prop on top of the
  open one.
\<close>

lemma handle_mousedown_while_dragging:
  "(case run [HandleMousedown (pointer_at 100 100) 0 ''high'', Mousemove (pointer_at 100 103),
              HandleMousedown (pointer_at 100 103) 0 ''low'']
           (idle_chart (reversed_series columnrange_dragDropProps) (\<lambda>r. range_point)) of
      Inr c \<Rightarrow> (map_option updateProp (dragDropData c),
                map_option draggedPastSensitivity (dragDropData c),
                map_option rect_height (dragGuideBox c))
    | Inl err \<Rightarrow> (None, None, None)) = (Some (Some ''low''), Some False, Some 10)"
  by (simp add: scen session model onResizeHandleMouseDown_def getGuideBox_def
      resizeGuideBox_def axisReversed_def flipResizeSide_def resizeRect_def real_less_rsqrt)

subsection \<open>Grouped points\<close>

lemma getGroupedPoints_truthy:
  assumes "groupBy (series_dragDrop ser) = Some k"
      and "point_options (st r) k = Some g"
      and "truthy (Some g)"
  shows "getGroupedPoints st ser r =
         filter (\<lambda>q. point_options (st q) k = Some g) (series_points ser)"
  using assms by (simp add: getGroupedPoints_def)

lemma eachNewPoint_keeps:
  assumes "eachNewPoint st f ps hm0 = Inr hm"
      and "i \<notin> (\<lambda>p. point_id (st p)) ` set ps"
  shows "map_of hm i = map_of hm0 i"
  using assms
proof (induction ps arbitrary: hm0)
  case Nil
  then show ?case by simp
next
  case (Cons p ps)
  from Cons.prems(1) obtain vals where
    v: "f (st p) = Inr vals" and
    rest: "eachNewPoint st f ps
             (AList.update (point_id (st p)) \<lparr>newPoint_point = p, newValues = vals\<rparr> hm0) = Inr hm"
    by (auto split: sum.splits)
  from Cons.prems(2) have ne: "i \<noteq> point_id (st p)" and out: "i \<notin> (\<lambda>p. point_id (st p)) ` set ps"
    by auto
  from Cons.IH [OF rest out] ne show ?case
    by (simp add: update_conv')
qed

lemma eachNewPoint_entry:
  assumes "eachNewPoint st f ps hm0 = Inr hm"
      and "q \<in> set ps"
      and "distinct (map (\<lambda>p. point_id (st p)) ps)"
  shows "\<exists>vals. f (st q) = Inr vals \<and>
           map_of hm (point_id (st q)) = Some \<lparr>newPoint_point = q, newValues = vals\<rparr>"
  using assms
proof (induction ps arbitrary: hm0)
  case Nil
  then show ?case by simp
next
  case (Cons p ps)
  from Cons.prems(1) obtain vals where
    v: "f (st p) = Inr vals" and
    rest: "eachNewPoint st f ps
             (AList.update (point_id (st p)) \<lparr>newPoint_point = p, newValues = vals\<rparr> hm0) = Inr hm"
    by (auto split: sum.splits)
  from Cons.prems(3) have fresh: "point_id (st p) \<notin> (\<lambda>p. point_id (st p)) ` set ps"
    and dist: "distinct (map (\<lambda>p. point_id (st p)) ps)"
    by auto
  show ?case
  proof (cases "q = p")
    case True
    from eachNewPoint_keeps [OF rest fresh]
    have "map_of hm (point_id (st p)) = Some \<lparr>newPoint_point = p, newValues = vals\<rparr>"
      by (simp add: update_conv')
    with v True show ?thesis by blast
  next
    case False
    with Cons.prems(2) have "q \<in> set ps" by simp
    from Cons.IH [OF rest this dist] show ?thesis .
  qed
qed

lemma limitToRange_unlimited:
  assumes "nums opts (''dragPrecision'' @ direction) = Some 0"
      and "nums opts (''dragMin'' @ direction) = None"
      and "nums opts (''dragMax'' @ direction) = None"
  shows "limitToRange opts x direction = x"
  using assms by (simp add: limitToRange_def Let_def pick_def Math_max_def Math_min_def)

lemma dXValue_affine:
  assumes "xAxis ser = Some xa"
      and "toPixels xa = (\<lambda>v. a * v + b)"
      and "toValue xa = (\<lambda>p. (p - b) / a)"
      and "a \<noteq> 0"
      and "dXValue ser pt org newPos = Inr (Some dd)"
  shows "dd = (if horiz xa then pageX newPos - pageX org else pageY newPos - pageY org) / a"
  using assms
  by (auto simp: dXValue_def Let_def field_simps split: option.splits)

lemma dYValue_affine:
  assumes "yAxis ser = Some ya"
      and "toPixels ya = (\<lambda>v. a * v + b)"
      and "toValue ya = (\<lambda>p. (p - b) / a)"
      and "a \<noteq> 0"
      and "dYValue ser pt org newPos = Inr (Some dd)"
  shows "dd = (if horiz ya then pageX newPos - pageX org else pageY newPos - pageY org) / a"
  using assms
  by (auto simp: dYValue_def Let_def field_simps split: option.splits)

lemma initDragDrop_session:
  assumes "initDragDrop e r c = Inr c1"
  shows "\<exists>d. dragDropData c1 = Some d \<and> point d = r \<and> updateProp d = None \<and>
              groupedPoints d = getGroupedPoints (store c) (series c) r \<and>
              pageX (origin d) = pageX e \<and> pageY (origin d) = pageY e \<and>
              origin_x (origin d) = None \<and> origin_y (origin d) = None \<and>
              points (origin d) =
                points (getPositionSnapshot (store c) (series c) e (groupedPoints d) None) \<and>
              store c1 = store c \<and> series c1 = series c"
  using assms
  by (auto simp: initDragDrop_def Let_def getPositionSnapshot_def split: if_splits sum.splits)

lemma assignProps_keys:
  assumes "assignProps f ups = Inr res"
      and "\<And>kv e. f kv = Inr (Some e) \<Longrightarrow> fst e = fst kv"
      and "key \<notin> fst ` set ups"
  shows "map_of res key = None"
proof (rule ccontr)
  assume "map_of res key \<noteq> None"
  then obtain v where "(key, v) \<in> set res"
    by (auto dest: map_of_SomeD)
  from assignProps_mem [OF assms(1) this] obtain kv where
    "kv \<in> set ups" "f kv = Inr (Some (key, v))" by blast
  with assms(2) [of kv "(key, v)"] assms(3) show False
    by force
qed

lemma assignProps_lookup:
  assumes "assignProps f ups = Inr res"
      and "\<And>kv e. f kv = Inr (Some e) \<Longrightarrow> fst e = fst kv"
      and "distinct (map fst ups)"
      and "(key, val) \<in> set ups"
  shows "\<exists>r. f (key, val) = Inr r \<and> map_of res key = map_option snd r"
  using assms(1,3,4)
proof (induction ups arbitrary: res)
  case Nil
  then show ?case by simp
next
  case (Cons kv rest)
  from Cons.prems(1) obtain r0 res' where
    f0: "f kv = Inr r0" and rest: "assignProps f rest = Inr res'" and
    res: "res = (case r0 of None \<Rightarrow> res' | Some entry \<Rightarrow> entry # res')"
    by (auto split: sum.splits)
  from Cons.prems(2) have fresh: "fst kv \<notin> fst ` set rest" and dist: "distinct (map fst rest)"
    by auto
  show ?case
  proof (cases "(key, val) = kv")
    case True
    then have "key \<notin> fst ` set rest" using fresh by force
    from assignProps_keys [OF rest assms(2) this] have none: "map_of res' key = None" .
    show ?thesis
    proof (cases r0)
      case None
      with f0 True res none show ?thesis by auto
    next
      case (Some e)
      with f0 assms(2) [of kv e] True have "fst e = key" by auto
      with f0 True res Some show ?thesis by (cases e) auto
    qed
  next
    case False
    with Cons.prems(3) have mem: "(key, val) \<in> set rest" by simp
    from Cons.IH [OF rest dist mem] obtain r where
      r: "f (key, val) = Inr r" "map_of res' key = map_option snd r" by blast
    have ne: "fst kv \<noteq> key"
    proof
      assume "fst kv = key"
      with mem have "fst kv \<in> fst ` set rest" by (metis fst_conv image_eqI)
      with fresh show False by simp
    qed
    show ?thesis
    proof (cases r0)
      case None
      with res r show ?thesis by auto
    next
      case (Some e)
      with f0 assms(2) [of kv e] ne have "fst e \<noteq> key" by auto
      with res Some r show ?thesis by (cases e) auto
    qed
  qed
qed

lemma assignProp_key:
  "assignProp opts pt single dXv dYv pointOrigin kv = Inr (Some e) \<Longrightarrow> fst e = fst kv"
  by (auto simp: assignProp_def Let_def split: option.splits if_splits)

lemma getDropValues_lookup:
  assumes res: "getDropValues ser pt org newPos ups = Inr vals"
      and dist: "distinct (map fst ups)"
      and mem: "(key, val) \<in> set ups"
  shows "\<exists>po old dd.
           points org (point_id pt) = Some po \<and> po key = Some old \<and>
           (if axis val = ''x'' then dXValue ser pt org newPos
            else dYValue ser pt org newPos) = Inr (Some dd) \<and>
           map_of vals key =
             (let nv = limitToRange (merge (series_dragDrop ser) (point_dragDrop pt)) (old + dd)
                         (toUpperCase (axis val))
              in if updateSingleProp ups \<and>
                    (case propValidate val of Some validate \<Rightarrow> \<not> validate nv pt | None \<Rightarrow> False)
                 then None else Some nv)"
proof -
  let ?opts = "merge (series_dragDrop ser) (point_dragDrop pt)"
  from res obtain dXv dYv where
    dx: "dXValue ser pt org newPos = Inr dXv" and
    dy: "dYValue ser pt org newPos = Inr dYv" and
    ap: "assignProps (assignProp ?opts pt (updateSingleProp ups) dXv dYv (points org (point_id pt))) ups
         = Inr vals"
    by (auto simp: getDropValues_def Let_def split: sum.splits)
  have "\<exists>r. assignProp ?opts pt (updateSingleProp ups) dXv dYv (points org (point_id pt)) (key, val)
              = Inr r \<and> map_of vals key = map_option snd r"
    by (rule assignProps_lookup [OF ap _ dist mem]) (rule assignProp_key)
  then obtain r where
    r: "assignProp ?opts pt (updateSingleProp ups) dXv dYv (points org (point_id pt)) (key, val) = Inr r"
       "map_of vals key = map_option snd r"
    by blast
  from r(1) obtain po old dd where
    e: "points org (point_id pt) = Some po" "po key = Some old"
       "(if axis val = ''x'' then dXv else dYv) = Some dd"
    by (auto simp: assignProp_def Let_def split: option.splits if_splits)
  from r e have "map_of vals key =
             (let nv = limitToRange ?opts (old + dd) (toUpperCase (axis val))
              in if updateSingleProp ups \<and>
                    (case propValidate val of Some validate \<Rightarrow> \<not> validate nv pt | None \<Rightarrow> False)
                 then None else Some nv)"
    by (auto simp: assignProp_def Let_def split: option.splits if_splits)
  with e dx dy show ?thesis
    by (cases "axis val = ''x''") auto
qed

lemma group_entry:
  assumes grp: "groupedPoints d = getGroupedPoints st0 ser (point d)"
      and mv: "updateProp d = None"
      and k: "groupBy (series_dragDrop ser) = Some k"
      and g: "point_options (st0 (point d)) k = Some g"
      and tr: "truthy (Some g)"
      and q: "q \<in> set (series_points ser)"
      and qg: "point_options (st0 q) k = Some g"
      and ids: "distinct (map (\<lambda>p. point_id (st0 p)) (series_points ser))"
      and same: "\<And>p. point_id (st p) = point_id (st0 p)"
      and np: "getNewPoints st ser d newPos = Inr hm"
  shows "\<exists>vals.
           map_of hm (point_id (st q)) = Some \<lparr>newPoint_point = q, newValues = vals\<rparr> \<and>
           getDropValues ser (st q) (origin d) newPos
             (filter (toUpdate (merge (series_dragDrop ser) (point_dragDrop (st (point d)))) None)
                (dragDropProps ser)) = Inr vals"
proof -
  let ?opts = "merge (series_dragDrop ser) (point_dragDrop (st (point d)))"
  let ?ups = "filter (toUpdate ?opts None) (dragDropProps ser)"
  let ?grouped = "filter (\<lambda>p. point_options (st0 p) k = Some g) (series_points ser)"
  have gp: "groupedPoints d = ?grouped"
    unfolding grp by (rule getGroupedPoints_truthy [where st = st0 and r = "point d", OF k g tr])
  have each: "eachNewPoint st (\<lambda>p. getDropValues ser p (origin d) newPos ?ups) ?grouped [] = Inr hm"
    using np by (simp add: getNewPoints_def Let_def mv nameSet_def gp)
  have qin: "q \<in> set ?grouped"
    using q qg by simp
  have "distinct (map (\<lambda>p. point_id (st0 p)) ?grouped)"
    using ids by (rule distinct_map_filter)
  then have dist: "distinct (map (\<lambda>p. point_id (st p)) ?grouped)"
    by (simp add: same)
  from eachNewPoint_entry [OF each qin dist] show ?thesis
    by blast
qed

lemma getDropValues_lookup_affine:
  assumes res: "getDropValues ser pt org newPos ups = Inr vals"
      and dist: "distinct (map fst ups)"
      and mem: "kv \<in> set ups"
      and xa: "xAxis ser = Some xa" "toPixels xa = (\<lambda>v. ax * v + cx)"
              "toValue xa = (\<lambda>p. (p - cx) / ax)" "ax \<noteq> 0"
      and ya: "yAxis ser = Some ya" "toPixels ya = (\<lambda>v. ay * v + cy)"
              "toValue ya = (\<lambda>p. (p - cy) / ay)" "ay \<noteq> 0"
  shows "\<exists>po old.
           points org (point_id pt) = Some po \<and> po (fst kv) = Some old \<and>
           map_of vals (fst kv) =
             (let nv = limitToRange (merge (series_dragDrop ser) (point_dragDrop pt))
                         (old + (if axis (snd kv) = ''x''
                                 then (if horiz xa then pageX newPos - pageX org
                                       else pageY newPos - pageY org) / ax
                                 else (if horiz ya then pageX newPos - pageX org
                                       else pageY newPos - pageY org) / ay))
                         (toUpperCase (axis (snd kv)))
              in if updateSingleProp ups \<and>
                    (case propValidate (snd kv) of Some validate \<Rightarrow> \<not> validate nv pt | None \<Rightarrow> False)
                 then None else Some nv)"
proof -
  from mem have mem': "(fst kv, snd kv) \<in> set ups" by simp
  from getDropValues_lookup [OF res dist mem'] obtain po old dd where
    e: "points org (point_id pt) = Some po" "po (fst kv) = Some old"
       "(if axis (snd kv) = ''x'' then dXValue ser pt org newPos
         else dYValue ser pt org newPos) = Inr (Some dd)"
       "map_of vals (fst kv) =
          (let nv = limitToRange (merge (series_dragDrop ser) (point_dragDrop pt)) (old + dd)
                      (toUpperCase (axis (snd kv)))
           in if updateSingleProp ups \<and>
                 (case propValidate (snd kv) of Some validate \<Rightarrow> \<not> validate nv pt | None \<Rightarrow> False)
              then None else Some nv)"
    by blast
  have "dd = (if axis (snd kv) = ''x''
              then (if horiz xa then pageX newPos - pageX org else pageY newPos - pageY org) / ax
              else (if horiz ya then pageX newPos - pageX org else pageY newPos - pageY org) / ay)"
  proof (cases "axis (snd kv) = ''x''")
    case True
    with e(3) have "dXValue ser pt org newPos = Inr (Some dd)" by simp
    from dXValue_affine [OF xa this] True show ?thesis by simp
  next
    case False
    with e(3) have "dYValue ser pt org newPos = Inr (Some dd)" by simp
    from dYValue_affine [OF ya this] False show ?thesis by simp
  qed
  with e(1,2,4) show ?thesis by blast
qed

lemma group_session_reached:
  "(case run [Mousedown (pointer_at 100 100)] (idle_chart (group_series (Some 0)) group_store) of
      Inr c \<Rightarrow> dragDropData c | Inl err \<Rightarrow> None) = Some group_session"
  by (simp add: group_session_def idle_chart_def pointer_at_def mouseDown_def initDragDrop_def
      zoomOrPanKeyPressed_def keyProperty_def isPointMovable_def getGroupedPoints_def pick_def
      group_series_def group_options_def group_store_def group_points_def y_series_def
      movable_y_def Let_def)

text \<open>
  C5, as stated, fails.  Each line is a move session on the first of two points that share
  the group value \<open>g\<close>.  With the default precision, \<open>y = 10\<close> and \<open>y = 10.5\<close> dragged 6 pixels
  on the axis \<open>toPixels v = 2 * v\<close> go to 13 and to 14: the deltas are 3 and 3.5.  With
  precision 0 and a maximum of 11 in the options of the dragged point alone, they go to 11 and
  to 13.5.  With precision 0 on the axis that is not linear, \<open>y = 8\<close> and \<open>y = 12\<close> dragged 4
  pixels go to 11 and to 14.  On the column range series with \<^verbatim>\<open>draggableLow\<close> off and
  precision 0, \<open>high\<close> is the single prop under update and is validated: dragged 3 pixels up,
  the dragged point goes from 15 to 12 and the grouped point, with \<open>low = 5\<close> and \<open>high = 6\<close>,
  is not updated.  In a resize started on a handle only the point of the handle is updated.
\<close>

theorem group_deltas_counterexample:
  "(case run [Mousedown (pointer_at 100 100), Mousemove (pointer_at 100 106)]
           (idle_chart (group_series None) group_store) of
      Inr c \<Rightarrow> (props (store c 0) ''y'', props (store c 1) ''y'') | Inl err \<Rightarrow> (None, None))
     = (Some 13, Some 14) \<and>
   props (group_store 0) ''y'' = Some 10 \<and>
   props (group_store 1) ''y'' = Some (21 / 2) \<and>
   (case run [Mousedown (pointer_at 100 100), Mousemove (pointer_at 100 106)]
           (idle_chart (group_series (Some 0)) (group_points 10 (21 / 2) (Some anchor_maximum))) of
      Inr c \<Rightarrow> (props (store c 0) ''y'', props (store c 1) ''y'') | Inl err \<Rightarrow> (None, None))
     = (Some 11, Some (27 / 2)) \<and>
   (case run [Mousedown (pointer_at 100 100), Mousemove (pointer_at 100 104)]
           (idle_chart kinked_group_series (group_points 8 12 None)) of
      Inr c \<Rightarrow> (props (store c 0) ''y'', props (store c 1) ''y'') | Inl err \<Rightarrow> (None, None))
     = (Some 11, Some 14) \<and>
   (case run [Mousedown (pointer_at 100 100), Mousemove (pointer_at 100 97)]
           (idle_chart high_only_series (range_group_store 6)) of
      Inr c \<Rightarrow> (props (store c 0) ''high'', props (store c 1) ''high'') | Inl err \<Rightarrow> (None, None))
     = (Some 12, Some 6) \<and>
   (case run [HandleMousedown (pointer_at 100 100) 0 ''high'', Mousemove (pointer_at 100 103)]
           (idle_chart range_group_series (range_group_store 15)) of
      Inr c \<Rightarrow> (props (store c 0) ''high'', props (store c 1) ''high'') | Inl err \<Rightarrow> (None, None))
     = (Some 18, Some 15)"
  by (simp add: scen session model onResizeHandleMouseDown_def real_less_rsqrt)

text \<open>
  C5, amended.  Take a move session (no prop under resize) whose group was taken at the
  start for a dragged point with a truthy value \<open>g\<close> of the grouping option, in a series whose
  points have distinct ids (kept during the session; the keys of \<^verbatim>\<open>dragDropProps\<close> are
  distinct as in any object), and a move for which \<^verbatim>\<open>getNewPoints\<close> returns.

  First, \<^verbatim>\<open>newPoints\<close> has an entry for every point \<open>q\<close> of the series whose grouping option
  equals \<open>g\<close> (the dragged point is one of them when it is among the points of the series):
  the values \<^verbatim>\<open>getDropValues\<close> gives for \<open>q\<close> from the same snapshot, pointer position and
  props \<open>ups\<close> as for the dragged point.  When both axes have an affine pixel transform, every
  prop of \<open>ups\<close> is treated in this way for \<open>q\<close>: the proposal is the recorded value of \<open>q\<close>
  plus a delta, the pixel movement over the scale of the axis, which is the same for all
  points; the proposal is rounded and clamped under the options of \<open>q\<close>; the prop is left out
  of the entry exactly when it is the only prop of \<open>ups\<close> and its validation rejects the
  value on \<open>q\<close>.

  Second, \<open>q\<close> receives the very deltas of the dragged point, for every prop of \<open>ups\<close>, when
  the dragged point is among the points of the series, the axes are affine, the options of
  both points set precision 0 and no limits for the props of \<open>ups\<close>, and no validation
  applies (\<open>ups\<close> has several props, or its only prop has no validation).  Nothing is stated
  for a value of the grouping option that is not truthy.
\<close>

theorem getNewPoints_group:
  assumes grp: "groupedPoints d = getGroupedPoints st0 ser (point d)"
      and mv: "updateProp d = None"
      and k: "groupBy (series_dragDrop ser) = Some k"
      and g: "point_options (st0 (point d)) k = Some g"
      and tr: "truthy (Some g)"
      and q: "q \<in> set (series_points ser)"
      and qg: "point_options (st0 q) k = Some g"
      and ids: "distinct (map (\<lambda>p. point_id (st0 p)) (series_points ser))"
      and same: "\<And>p. point_id (st p) = point_id (st0 p)"
      and keys: "distinct (map fst (dragDropProps ser))"
      and np: "getNewPoints st ser d newPos = Inr hm"
      and ups: "ups = filter (toUpdate (merge (series_dragDrop ser) (point_dragDrop (st (point d)))) None)
                        (dragDropProps ser)"
      and xa: "xAxis ser = Some xa"
      and ya: "yAxis ser = Some ya"
      and px: "px = (if horiz xa then pageX newPos - pageX (origin d)
                     else pageY newPos - pageY (origin d))"
      and py: "py = (if horiz ya then pageX newPos - pageX (origin d)
                     else pageY newPos - pageY (origin d))"
  shows "(\<exists>vals.
            map_of hm (point_id (st q)) = Some \<lparr>newPoint_point = q, newValues = vals\<rparr> \<and>
            getDropValues ser (st q) (origin d) newPos ups = Inr vals \<and>
            (toPixels xa = (\<lambda>v. ax * v + cx) \<and> toValue xa = (\<lambda>p. (p - cx) / ax) \<and> ax \<noteq> 0 \<and>
             toPixels ya = (\<lambda>v. ay * v + cy) \<and> toValue ya = (\<lambda>p. (p - cy) / ay) \<and> ay \<noteq> 0 \<longrightarrow>
             (\<forall>kv \<in> set ups.
                \<exists>po old.
                  points (origin d) (point_id (st q)) = Some po \<and> po (fst kv) = Some old \<and>
                  map_of vals (fst kv) =
                    (let nv = limitToRange (merge (series_dragDrop ser) (point_dragDrop (st q)))
                                (old + (if axis (snd kv) = ''x'' then px / ax else py / ay))
                                (toUpperCase (axis (snd kv)))
                     in if updateSingleProp ups \<and>
                           (case propValidate (snd kv) of
                              Some validate \<Rightarrow> \<not> validate nv (st q)
                            | None \<Rightarrow> False)
                        then None else Some nv)))) \<and>
         (point d \<in> set (series_points ser) \<and>
          toPixels xa = (\<lambda>v. ax * v + cx) \<and> toValue xa = (\<lambda>p. (p - cx) / ax) \<and> ax \<noteq> 0 \<and>
          toPixels ya = (\<lambda>v. ay * v + cy) \<and> toValue ya = (\<lambda>p. (p - cy) / ay) \<and> ay \<noteq> 0 \<and>
          (\<forall>kv \<in> set ups. \<forall>p \<in> {q, point d}.
             nums (merge (series_dragDrop ser) (point_dragDrop (st p)))
               (''dragPrecision'' @ toUpperCase (axis (snd kv))) = Some 0 \<and>
             nums (merge (series_dragDrop ser) (point_dragDrop (st p)))
               (''dragMin'' @ toUpperCase (axis (snd kv))) = None \<and>
             nums (merge (series_dragDrop ser) (point_dragDrop (st p)))
               (''dragMax'' @ toUpperCase (axis (snd kv))) = None) \<and>
          (updateSingleProp ups \<longrightarrow> (\<forall>kv \<in> set ups. propValidate (snd kv) = None)) \<longrightarrow>
          (\<forall>kv \<in> set ups.
             \<exists>valsq valsr poq por oldq oldr vq vr.
               map_of hm (point_id (st q)) = Some \<lparr>newPoint_point = q, newValues = valsq\<rparr> \<and>
               map_of hm (point_id (st (point d)))
                 = Some \<lparr>newPoint_point = point d, newValues = valsr\<rparr> \<and>
               points (origin d) (point_id (st q)) = Some poq \<and> poq (fst kv) = Some oldq \<and>
               points (origin d) (point_id (st (point d))) = Some por \<and> por (fst kv) = Some oldr \<and>
               map_of valsq (fst kv) = Some vq \<and> map_of valsr (fst kv) = Some vr \<and>
               vq - oldq = vr - oldr))"
proof -
  have dups: "distinct (map fst ups)"
    unfolding ups using keys by (rule distinct_map_filter)
  from group_entry [OF grp mv k g tr q qg ids same np] obtain vals where
    ent: "map_of hm (point_id (st q)) = Some \<lparr>newPoint_point = q, newValues = vals\<rparr>" and
    res: "getDropValues ser (st q) (origin d) newPos ups = Inr vals"
    unfolding ups by blast
  have each: "\<exists>po old.
        points (origin d) (point_id (st p)) = Some po \<and> po (fst kv) = Some old \<and>
        map_of vs (fst kv) =
          (let nv = limitToRange (merge (series_dragDrop ser) (point_dragDrop (st p)))
                      (old + (if axis (snd kv) = ''x'' then px / ax else py / ay))
                      (toUpperCase (axis (snd kv)))
           in if updateSingleProp ups \<and>
                 (case propValidate (snd kv) of
                    Some validate \<Rightarrow> \<not> validate nv (st p)
                  | None \<Rightarrow> False)
              then None else Some nv)"
    if "getDropValues ser (st p) (origin d) newPos ups = Inr vs" and "kv \<in> set ups"
      and "toPixels xa = (\<lambda>v. ax * v + cx)" "toValue xa = (\<lambda>p. (p - cx) / ax)" "ax \<noteq> 0"
      and "toPixels ya = (\<lambda>v. ay * v + cy)" "toValue ya = (\<lambda>p. (p - cy) / ay)" "ay \<noteq> 0"
    for p vs kv
    using getDropValues_lookup_affine [OF that(1) dups that(2) xa that(3,4,5) ya that(6,7,8)]
    unfolding px py by simp
  have first: "\<forall>kv \<in> set ups.
                \<exists>po old.
                  points (origin d) (point_id (st q)) = Some po \<and> po (fst kv) = Some old \<and>
                  map_of vals (fst kv) =
                    (let nv = limitToRange (merge (series_dragDrop ser) (point_dragDrop (st q)))
                                (old + (if axis (snd kv) = ''x'' then px / ax else py / ay))
                                (toUpperCase (axis (snd kv)))
                     in if updateSingleProp ups \<and>
                           (case propValidate (snd kv) of
                              Some validate \<Rightarrow> \<not> validate nv (st q)
                            | None \<Rightarrow> False)
                        then None else Some nv)"
    if "toPixels xa = (\<lambda>v. ax * v + cx)" "toValue xa = (\<lambda>p. (p - cx) / ax)" "ax \<noteq> 0"
       "toPixels ya = (\<lambda>v. ay * v + cy)" "toValue ya = (\<lambda>p. (p - cy) / ay)" "ay \<noteq> 0"
    using each [OF res _ that] by blast
  have second: "\<exists>valsq valsr poq por oldq oldr vq vr.
               map_of hm (point_id (st q)) = Some \<lparr>newPoint_point = q, newValues = valsq\<rparr> \<and>
               map_of hm (point_id (st (point d)))
                 = Some \<lparr>newPoint_point = point d, newValues = valsr\<rparr> \<and>
               points (origin d) (point_id (st q)) = Some poq \<and> poq (fst kv) = Some oldq \<and>
               points (origin d) (point_id (st (point d))) = Some por \<and> por (fst kv) = Some oldr \<and>
               map_of valsq (fst kv) = Some vq \<and> map_of valsr (fst kv) = Some vr \<and>
               vq - oldq = vr - oldr"
    if anchor: "point d \<in> set (series_points ser)"
      and aff: "toPixels xa = (\<lambda>v. ax * v + cx)" "toValue xa = (\<lambda>p. (p - cx) / ax)" "ax \<noteq> 0"
               "toPixels ya = (\<lambda>v. ay * v + cy)" "toValue ya = (\<lambda>p. (p - cy) / ay)" "ay \<noteq> 0"
      and un: "\<forall>kv \<in> set ups. \<forall>p \<in> {q, point d}.
             nums (merge (series_dragDrop ser) (point_dragDrop (st p)))
               (''dragPrecision'' @ toUpperCase (axis (snd kv))) = Some 0 \<and>
             nums (merge (series_dragDrop ser) (point_dragDrop (st p)))
               (''dragMin'' @ toUpperCase (axis (snd kv))) = None \<and>
             nums (merge (series_dragDrop ser) (point_dragDrop (st p)))
               (''dragMax'' @ toUpperCase (axis (snd kv))) = None"
      and nv: "updateSingleProp ups \<longrightarrow> (\<forall>kv \<in> set ups. propValidate (snd kv) = None)"
      and kv: "kv \<in> set ups"
    for kv
  proof -
    from group_entry [OF grp mv k g tr anchor g ids same np] obtain valsr where
      entr: "map_of hm (point_id (st (point d)))
               = Some \<lparr>newPoint_point = point d, newValues = valsr\<rparr>" and
      resr: "getDropValues ser (st (point d)) (origin d) newPos ups = Inr valsr"
      unfolding ups by blast
    have plain: "limitToRange (merge (series_dragDrop ser) (point_dragDrop (st p))) x
                   (toUpperCase (axis (snd kv))) = x" if "p \<in> {q, point d}" for p x
      using un kv that by (intro limitToRange_unlimited) auto
    have valid: "\<not> (updateSingleProp ups \<and>
                   (case propValidate (snd kv) of Some validate \<Rightarrow> \<not> validate x p | None \<Rightarrow> False))"
      for x p
      using nv kv by auto
    from each [OF res kv aff] obtain poq oldq where
      eq: "points (origin d) (point_id (st q)) = Some poq" "poq (fst kv) = Some oldq"
          "map_of vals (fst kv) =
             Some (oldq + (if axis (snd kv) = ''x'' then px / ax else py / ay))"
      by (auto simp: Let_def plain valid)
    from each [OF resr kv aff] obtain por oldr where
      er: "points (origin d) (point_id (st (point d))) = Some por" "por (fst kv) = Some oldr"
          "map_of valsr (fst kv) =
             Some (oldr + (if axis (snd kv) = ''x'' then px / ax else py / ay))"
      by (auto simp: Let_def plain valid)
    have "(oldq + (if axis (snd kv) = ''x'' then px / ax else py / ay)) - oldq
          = (oldr + (if axis (snd kv) = ''x'' then px / ax else py / ay)) - oldr"
      by simp
    with ent entr eq er show ?thesis by blast
  qed
  from ent res first second show ?thesis
    by blast
qed

theorem getNewPoints_group_witness:
  "getNewPoints group_store (group_series (Some 0)) group_session (pointer_at 100 106)
     = Inr [(''a'', \<lparr>newPoint_point = 0, newValues = [(''y'', 13)]\<rparr>),
            (''b'', \<lparr>newPoint_point = 1, newValues = [(''y'', 27 / 2)]\<rparr>)] \<and>
   points (origin group_session) ''a'' = Some [''y'' \<mapsto> 10] \<and>
   points (origin group_session) ''b'' = Some [''y'' \<mapsto> 21 / 2] \<and>
   (27 / 2 :: real) - 21 / 2 = 13 - 10"
proof -
  let ?st = "group_store"
  let ?ser = "group_series (Some 0)"
  let ?ups = "[(''y'', movable_y)]"
  have grp: "groupedPoints group_session = getGroupedPoints ?st ?ser (point group_session)"
    by (simp add: scen getGroupedPoints_def)
  have mv: "updateProp group_session = None"
    by (simp add: scen)
  have k: "groupBy (series_dragDrop ?ser) = Some ''group''"
    by (simp add: scen)
  have g: "point_options (?st (point group_session)) ''group'' = Some (JStr ''g'')"
    by (simp add: scen)
  have tr: "truthy (Some (JStr ''g''))"
    by simp
  have q: "(1::nat) \<in> set (series_points ?ser)"
    by (simp add: scen)
  have qg: "point_options (?st 1) ''group'' = Some (JStr ''g'')"
    by (simp add: scen)
  have ids: "distinct (map (\<lambda>p. point_id (?st p)) (series_points ?ser))"
    by (simp add: scen)
  have same: "point_id (?st p) = point_id (?st p)" for p
    by simp
  have keys: "distinct (map fst (dragDropProps ?ser))"
    by (simp add: scen)
  have np: "getNewPoints ?st ?ser group_session (pointer_at 100 106)
     = Inr [(''a'', \<lparr>newPoint_point = 0, newValues = [(''y'', 13)]\<rparr>),
            (''b'', \<lparr>newPoint_point = 1, newValues = [(''y'', 27 / 2)]\<rparr>)]"
    by (simp add: scen session model)
  have ups: "?ups = filter (toUpdate (merge (series_dragDrop ?ser)
                 (point_dragDrop (?st (point group_session)))) None) (dragDropProps ?ser)"
    by (simp add: scen merge_def toUpdate_def enabled_def nameSet_def pick_def)
  have xa: "xAxis ?ser = Some (identity_axis True)"
    by (simp add: scen)
  have ya: "yAxis ?ser = Some doubling_axis"
    by (simp add: scen)
  have px: "(0::real) = (if horiz (identity_axis True)
                 then pageX (pointer_at 100 106) - pageX (origin group_session)
                 else pageY (pointer_at 100 106) - pageY (origin group_session))"
    by (simp add: scen getPositionSnapshot_def)
  have py: "(6::real) = (if horiz doubling_axis
                 then pageX (pointer_at 100 106) - pageX (origin group_session)
                 else pageY (pointer_at 100 106) - pageY (origin group_session))"
    by (simp add: scen getPositionSnapshot_def)
  have anchor: "point group_session \<in> set (series_points ?ser)"
    by (simp add: scen)
  have affx: "toPixels (identity_axis True) = (\<lambda>v. 1 * v + 0)"
             "toValue (identity_axis True) = (\<lambda>p. (p - 0) / 1)" "(1::real) \<noteq> 0"
    by (simp_all add: scen)
  have affy: "toPixels doubling_axis = (\<lambda>v. 2 * v + 0)"
             "toValue doubling_axis = (\<lambda>p. (p - 0) / 2)" "(2::real) \<noteq> 0"
    by (simp_all add: scen mult.commute)
  have un: "\<forall>kv \<in> set ?ups. \<forall>p \<in> {1, point group_session}.
             nums (merge (series_dragDrop ?ser) (point_dragDrop (?st p)))
               (''dragPrecision'' @ toUpperCase (axis (snd kv))) = Some 0 \<and>
             nums (merge (series_dragDrop ?ser) (point_dragDrop (?st p)))
               (''dragMin'' @ toUpperCase (axis (snd kv))) = None \<and>
             nums (merge (series_dragDrop ?ser) (point_dragDrop (?st p)))
               (''dragMax'' @ toUpperCase (axis (snd kv))) = None"
    by (simp add: scen merge_def toUpperCase_def)
  have nv: "updateSingleProp ?ups \<longrightarrow> (\<forall>kv \<in> set ?ups. propValidate (snd kv) = None)"
    by (simp add: scen)
  have mem: "(''y'', movable_y) \<in> set ?ups"
    by simp
  note t = getNewPoints_group [OF grp mv k g tr q qg ids same keys np ups xa ya px py,
      of 1 0 2 0]
  from t anchor affx affy un nv mem
  obtain valsq valsr poq por oldq oldr vq vr where
    r: "map_of [(''a'', \<lparr>newPoint_point = 0, newValues = [(''y'', 13)]\<rparr>),
                (''b'', \<lparr>newPoint_point = 1, newValues = [(''y'', 27 / 2)]\<rparr>)] (point_id (?st 1))
          = Some \<lparr>newPoint_point = 1, newValues = valsq\<rparr>"
       "map_of [(''a'', \<lparr>newPoint_point = 0, newValues = [(''y'', 13)]\<rparr>),
                (''b'', \<lparr>newPoint_point = 1, newValues = [(''y'', 27 / 2)]\<rparr>)]
            (point_id (?st (point group_session)))
          = Some \<lparr>newPoint_point = point group_session, newValues = valsr\<rparr>"
       "points (origin group_session) (point_id (?st 1)) = Some poq"
       "poq (fst (''y'', movable_y)) = Some oldq"
       "points (origin group_session) (point_id (?st (point group_session))) = Some por"
       "por (fst (''y'', movable_y)) = Some oldr"
       "map_of valsq (fst (''y'', movable_y)) = Some vq"
       "map_of valsr (fst (''y'', movable_y)) = Some vr"
       "vq - oldq = vr - oldr"
    by blast
  have snapa: "points (origin group_session) ''a'' = Some [''y'' \<mapsto> 10]"
    by (simp add: scen getPositionSnapshot_def fun_eq_iff restrict_map_def)
  have snapb: "points (origin group_session) ''b'' = Some [''y'' \<mapsto> 21 / 2]"
    by (simp add: scen getPositionSnapshot_def fun_eq_iff restrict_map_def)
  have ida: "point_id (?st (point group_session)) = ''a''" and idb: "point_id (?st 1) = ''b''"
    by (simp_all add: scen)
  from r(1) idb have vq: "valsq = [(''y'', 27 / 2)]" by simp
  from r(2) ida have vr: "valsr = [(''y'', 13)]" by simp
  from r(3,4) idb snapb have oq: "oldq = 21 / 2" by auto
  from r(5,6) ida snapa have orr: "oldr = 10" by auto
  from r(7) vq have "vq = 27 / 2" by simp
  moreover from r(8) vr have "vr = 13" by simp
  ultimately have "(27 / 2 :: real) - 21 / 2 = 13 - 10"
    using r(9) oq orr by simp
  with np snapa snapb show ?thesis
    by simp
qed

end
